theory Spec2Isabelle
  imports Main "HOL-Library.Char_ord" "HOL-Library.List_Lexorder"
begin

section \<open>Python values and exceptions\<close>

text \<open>
  Both servers exchange JSON: every tool returns \<open>json.dumps(v)\<close> for a value \<open>v\<close> built
  from \<open>None\<close>, booleans, integers, strings, lists and dictionaries with string keys, and
  the event log is whatever \<open>json.load\<close> produced. A tool is modelled by the value it
  hands to \<open>json.dumps\<close>. A dictionary is an association list in insertion order, read with
  \<open>map_of\<close>; \<open>json.load\<close> yields distinct keys. JSON numbers with a fraction or an exponent
  (Python floats) are outside the model, and a Python \<open>str\<close> is a list of characters with
  code points below 256.
\<close>

datatype json =
    JNull
  | JBool bool
  | JInt int
  | JStr string
  | JList "json list"
  | JObj "(string \<times> json) list"

text \<open>
  An exception carries \<open>str(e)\<close>; \<open>CalledProcessError\<close> carries \<open>e.stderr\<close> as well.
  \<open>OSError\<close> stands for the whole \<open>OSError\<close> family (\<open>FileNotFoundError\<close>,
  \<open>PermissionError\<close>, ...), \<open>PyException\<close> for any other subclass of \<open>Exception\<close>.
\<close>

datatype py_exn =
    TypeError string
  | AttributeError string
  | KeyError string
  | IndexError string
  | OSError string
  | JSONDecodeError string
  | PyException string
  | CalledProcessError string string

fun exn_str :: "py_exn \<Rightarrow> string" where
  "exn_str (TypeError m) = m"
| "exn_str (AttributeError m) = m"
| "exn_str (KeyError m) = m"
| "exn_str (IndexError m) = m"
| "exn_str (OSError m) = m"
| "exn_str (JSONDecodeError m) = m"
| "exn_str (PyException m) = m"
| "exn_str (CalledProcessError m err) = m"

text \<open>Sequencing of computations that may raise: the first exception wins.\<close>

definition bind_exn :: "py_exn + 'a \<Rightarrow> ('a \<Rightarrow> py_exn + 'b) \<Rightarrow> py_exn + 'b" where
  "bind_exn m f = (case m of Inl e \<Rightarrow> Inl e | Inr a \<Rightarrow> f a)"

definition quote :: "string \<Rightarrow> string" where
  "quote s = CHR 0x27 # s @ [CHR 0x27]"

fun type_name :: "json \<Rightarrow> string" where
  "type_name JNull = ''NoneType''"
| "type_name (JBool _) = ''bool''"
| "type_name (JInt _) = ''int''"
| "type_name (JStr _) = ''str''"
| "type_name (JList _) = ''list''"
| "type_name (JObj _) = ''dict''"

text \<open>Truth value of an object, as \<open>if x:\<close> and \<open>x and y\<close> test it.\<close>

fun py_truthy :: "json \<Rightarrow> bool" where
  "py_truthy JNull = False"
| "py_truthy (JBool b) = b"
| "py_truthy (JInt i) = (i \<noteq> 0)"
| "py_truthy (JStr s) = (s \<noteq> [])"
| "py_truthy (JList xs) = (xs \<noteq> [])"
| "py_truthy (JObj kv) = (kv \<noteq> [])"

text \<open>
  Python's \<open>==\<close>: \<open>bool\<close> is a subclass of \<open>int\<close>, so \<open>True == 1\<close>; lists are equal
  elementwise, dictionaries when they have the same keys with equal values.
\<close>

fun py_eq :: "json \<Rightarrow> json \<Rightarrow> bool" where
  "py_eq JNull JNull = True"
| "py_eq (JBool a) (JBool b) = (a = b)"
| "py_eq (JBool a) (JInt b) = ((if a then 1 else 0) = b)"
| "py_eq (JInt a) (JBool b) = (a = (if b then 1 else 0))"
| "py_eq (JInt a) (JInt b) = (a = b)"
| "py_eq (JStr a) (JStr b) = (a = b)"
| "py_eq (JList a) (JList b) = list_all2 py_eq a b"
| "py_eq (JObj a) (JObj b) =
     (length a = length b \<and>
      (\<forall>(k, v) \<in> set a. case map_of b k of None \<Rightarrow> False | Some w \<Rightarrow> py_eq v w))"
| "py_eq _ _ = False"

text \<open>
  Python's \<open><\<close>: numbers by value, strings lexicographically by code point, lists
  lexicographically (the first pair of unequal elements decides, else the lengths);
  every other pairing raises \<open>TypeError\<close>.
\<close>

definition not_supported :: "json \<Rightarrow> json \<Rightarrow> py_exn" where
  "not_supported a b =
     TypeError (quote ''<'' @ '' not supported between instances of '' @
                quote (type_name a) @ '' and '' @ quote (type_name b))"

fun int_of_bool :: "bool \<Rightarrow> int" where
  "int_of_bool b = (if b then 1 else 0)"

fun py_lt :: "json \<Rightarrow> json \<Rightarrow> py_exn + bool"
  and py_lt_list :: "json list \<Rightarrow> json list \<Rightarrow> py_exn + bool" where
  "py_lt (JStr a) (JStr b) = Inr (a < b)"
| "py_lt (JInt a) (JInt b) = Inr (a < b)"
| "py_lt (JInt a) (JBool b) = Inr (a < int_of_bool b)"
| "py_lt (JBool a) (JInt b) = Inr (int_of_bool a < b)"
| "py_lt (JBool a) (JBool b) = Inr (int_of_bool a < int_of_bool b)"
| "py_lt (JList a) (JList b) = py_lt_list a b"
| "py_lt a b = Inl (not_supported a b)"
| "py_lt_list [] [] = Inr False"
| "py_lt_list [] (y # ys) = Inr True"
| "py_lt_list (x # xs) [] = Inr False"
| "py_lt_list (x # xs) (y # ys) = (if py_eq x y then py_lt_list xs ys else py_lt x y)"

text \<open>\<open>d.get(k, default)\<close>; only a dictionary has the method.\<close>

fun dict_get :: "json \<Rightarrow> string \<Rightarrow> json \<Rightarrow> py_exn + json" where
  "dict_get (JObj kv) k d = Inr (case map_of kv k of None \<Rightarrow> d | Some v \<Rightarrow> v)"
| "dict_get v k d =
     Inl (AttributeError (quote (type_name v) @ '' object has no attribute '' @ quote ''get''))"

text \<open>\<open>d[k]\<close> for a string key on a dictionary loaded from JSON.\<close>

fun subscript :: "json \<Rightarrow> string \<Rightarrow> py_exn + json" where
  "subscript (JObj kv) k =
     (case map_of kv k of None \<Rightarrow> Inl (KeyError (quote k)) | Some v \<Rightarrow> Inr v)"
| "subscript (JStr s) k = Inl (TypeError ''string indices must be integers'')"
| "subscript (JList xs) k = Inl (TypeError ''list indices must be integers or slices, not str'')"
| "subscript v k = Inl (TypeError (quote (type_name v) @ '' object is not subscriptable''))"

text \<open>\<open>for e in x\<close>: a list yields its elements, a string its characters, a dictionary its keys.\<close>

fun py_iter :: "json \<Rightarrow> py_exn + json list" where
  "py_iter (JList xs) = Inr xs"
| "py_iter (JStr s) = Inr (map (\<lambda>c. JStr [c]) s)"
| "py_iter (JObj kv) = Inr (map (\<lambda>(k, v). JStr k) kv)"
| "py_iter v = Inl (TypeError (quote (type_name v) @ '' object is not iterable''))"

text \<open>
  Slices \<open>xs[:stop]\<close> and \<open>xs[start:]\<close>: a negative bound counts from the end and is clamped
  at the front of the sequence.
\<close>

definition slice_to :: "'a list \<Rightarrow> int \<Rightarrow> 'a list" where
  "slice_to xs stop = take (nat (if stop < 0 then int (length xs) + stop else stop)) xs"

definition slice_from :: "'a list \<Rightarrow> int \<Rightarrow> 'a list" where
  "slice_from xs start = drop (nat (if start < 0 then int (length xs) + start else start)) xs"

text \<open>\<open>str(n)\<close> for an integer: decimal digits, with a sign when negative.\<close>

definition digit :: "nat \<Rightarrow> char" where
  "digit d = ''0123456789'' ! d"

fun str_nat :: "nat \<Rightarrow> string" where
  "str_nat n = (if n < 10 then [digit n] else str_nat (n div 10) @ [digit (n mod 10)])"

declare str_nat.simps [simp del]

definition str_int :: "int \<Rightarrow> string" where
  "str_int i = (if i < 0 then CHR ''-'' # str_nat (nat (- i)) else str_nat (nat i))"

section \<open>GitHub Actions integration server: the event log\<close>

text \<open>
  \<open>EVENTS_FILE\<close> as a call finds it: absent, or present with the outcome of
  \<open>open\<close> and \<open>json.load\<close> (the exception raised, or the value loaded).
\<close>

datatype events_file = Missing | Present "py_exn + json"

text \<open>
  \<open>events[-limit:]\<close> on whatever \<open>json.load\<close> returned: a list or a string is sliced,
  anything else raises (for a dictionary the exception is \<open>TypeError\<close> up to Python 3.11
  and \<open>KeyError\<close> from 3.12 on; the handler treats both alike).
\<close>

fun last_events :: "json \<Rightarrow> int \<Rightarrow> py_exn + json" where
  "last_events (JList xs) limit = Inr (JList (slice_from xs (- limit)))"
| "last_events (JStr s) limit = Inr (JStr (slice_from s (- limit)))"
| "last_events (JObj kv) limit = Inl (TypeError (''unhashable type: '' @ quote ''slice''))"
| "last_events v limit = Inl (TypeError (quote (type_name v) @ '' object is not subscriptable''))"

definition get_recent_actions_events :: "events_file \<Rightarrow> int \<Rightarrow> py_exn + json" where
  "get_recent_actions_events file limit =
     (case (case file of
              Missing \<Rightarrow> Inr (JList [])
            | Present loaded \<Rightarrow> bind_exn loaded (\<lambda>events. last_events events limit)) of
        Inr v \<Rightarrow> Inr v
      | Inl e \<Rightarrow> Inr (JObj [(''error'', JStr (''Failed to read events: '' @ exn_str e))]))"

text \<open>
  A list comprehension \<open>[e for e in xs if p(e)]\<close> whose test may raise: the first
  exception ends it.
\<close>

fun filter_exn :: "('a \<Rightarrow> py_exn + bool) \<Rightarrow> 'a list \<Rightarrow> py_exn + 'a list" where
  "filter_exn p [] = Inr []"
| "filter_exn p (x # xs) =
     bind_exn (p x) (\<lambda>keep.
     bind_exn (filter_exn p xs) (\<lambda>rest.
     Inr (if keep then x # rest else rest)))"

text \<open>\<open>e.get("event") == "workflow_run"\<close>\<close>

definition is_workflow_run :: "json \<Rightarrow> py_exn + bool" where
  "is_workflow_run e =
     bind_exn (dict_get e ''event'' JNull) (\<lambda>v. Inr (py_eq v (JStr ''workflow_run'')))"

text \<open>\<open>e.get("workflow_name") == workflow_name\<close>\<close>

definition has_workflow_name :: "string \<Rightarrow> json \<Rightarrow> py_exn + bool" where
  "has_workflow_name workflow_name e =
     bind_exn (dict_get e ''workflow_name'' JNull) (\<lambda>v. Inr (py_eq v (JStr workflow_name)))"

text \<open>
  \<open>latest_status\<close> is a dictionary keyed by the tuple \<open>(name,)\<close>. Building the key hashes the
  name, which raises for a list or a dictionary; two keys are the same when their names
  are equal under \<open>==\<close>. An assignment to a key that is present replaces the value and
  keeps the key's place, an assignment to a new key appends.
\<close>

fun hashable :: "json \<Rightarrow> py_exn + unit" where
  "hashable (JList xs) = Inl (TypeError (''unhashable type: '' @ quote ''list''))"
| "hashable (JObj kv) = Inl (TypeError (''unhashable type: '' @ quote ''dict''))"
| "hashable v = Inr ()"

fun lookup_key :: "json \<Rightarrow> (json \<times> json) list \<Rightarrow> json option" where
  "lookup_key k [] = None"
| "lookup_key k ((k', v) # rest) = (if py_eq k' k then Some v else lookup_key k rest)"

fun assign_key :: "json \<Rightarrow> json \<Rightarrow> (json \<times> json) list \<Rightarrow> (json \<times> json) list" where
  "assign_key k v [] = [(k, v)]"
| "assign_key k v ((k', v') # rest) =
     (if py_eq k' k then (k', v) # rest else (k', v') # assign_key k v rest)"

text \<open>
  One pass of the loop body of \<open>get_workflow_status\<close>: the five \<open>event.get\<close> calls, the
  test \<open>key not in latest_status or (updated_at and latest_status[key].get("updated_at", "") < updated_at)\<close>
  and the assignment.
\<close>

definition status_entry :: "json \<Rightarrow> json \<Rightarrow> json \<Rightarrow> json \<Rightarrow> json \<Rightarrow> json" where
  "status_entry name run_id status conclusion updated_at =
     JObj [(''workflow_name'', name), (''run_id'', run_id), (''status'', status),
           (''conclusion'', conclusion), (''updated_at'', updated_at)]"

definition status_step :: "(json \<times> json) list \<Rightarrow> json \<Rightarrow> py_exn + (json \<times> json) list" where
  "status_step latest_status event =
     bind_exn (dict_get event ''workflow_name'' (JStr ''unknown'')) (\<lambda>name.
     bind_exn (dict_get event ''run_id'' JNull) (\<lambda>run_id.
     bind_exn (dict_get event ''status'' JNull) (\<lambda>status.
     bind_exn (dict_get event ''conclusion'' JNull) (\<lambda>conclusion.
     bind_exn (dict_get event ''updated_at'' JNull) (\<lambda>updated_at.
     bind_exn (hashable name) (\<lambda>_.
     bind_exn
       (case lookup_key name latest_status of
          None \<Rightarrow> Inr True
        | Some current \<Rightarrow>
            if py_truthy updated_at
            then bind_exn (dict_get current ''updated_at'' (JStr []))
                   (\<lambda>previous. py_lt previous updated_at)
            else Inr False)
       (\<lambda>replace.
     Inr (if replace
          then assign_key name (status_entry name run_id status conclusion updated_at)
                 latest_status
          else latest_status))))))))"

fun status_loop :: "(json \<times> json) list \<Rightarrow> json list \<Rightarrow> py_exn + (json \<times> json) list" where
  "status_loop latest_status [] = Inr latest_status"
| "status_loop latest_status (event # events) =
     bind_exn (status_step latest_status event) (\<lambda>latest_status'.
     status_loop latest_status' events)"

text \<open>
  The body of the \<open>try\<close> block once the file is loaded. \<open>workflow_name\<close> is the optional
  argument; \<open>if workflow_name:\<close> is false for \<open>None\<close> and for the empty string.
\<close>

definition workflow_status :: "json \<Rightarrow> string option \<Rightarrow> py_exn + json" where
  "workflow_status events workflow_name =
     bind_exn (py_iter events) (\<lambda>all_events.
     bind_exn (filter_exn is_workflow_run all_events) (\<lambda>workflow_events.
     bind_exn (case workflow_name of
                 None \<Rightarrow> Inr workflow_events
               | Some n \<Rightarrow>
                   if n \<noteq> [] then filter_exn (has_workflow_name n) workflow_events
                   else Inr workflow_events) (\<lambda>workflow_events.
     bind_exn (status_loop [] workflow_events) (\<lambda>latest_status.
     Inr (JList (map snd latest_status))))))"

definition get_workflow_status :: "events_file \<Rightarrow> string option \<Rightarrow> py_exn + json" where
  "get_workflow_status file workflow_name =
     (case (case file of
              Missing \<Rightarrow> Inr (JList [])
            | Present loaded \<Rightarrow> bind_exn loaded (\<lambda>events. workflow_status events workflow_name)) of
        Inr v \<Rightarrow> Inr v
      | Inl e \<Rightarrow> Inr (JObj [(''error'', JStr (''Failed to get workflow status: '' @ exn_str e))]))"

section \<open>Text helpers\<close>

text \<open>\<open>s.split('\n')\<close>: always at least one piece; a trailing newline gives a last empty piece.\<close>

fun split_nl :: "string \<Rightarrow> string list" where
  "split_nl [] = [[]]"
| "split_nl (c # cs) =
     (if c = CHR 0x0A then [] # split_nl cs
      else (case split_nl cs of [] \<Rightarrow> [[c]] | l # ls \<Rightarrow> (c # l) # ls))"

text \<open>\<open>'\n'.join(lines)\<close>\<close>

fun join_nl :: "string list \<Rightarrow> string" where
  "join_nl [] = []"
| "join_nl [l] = l"
| "join_nl (l # ls) = l @ CHR 0x0A # join_nl ls"

text \<open>
  \<open>s.splitlines()\<close>: a line ends at \<open>\n\<close>, \<open>\r\<close>, \<open>\r\n\<close>, \<open>\v\<close>, \<open>\f\<close>, the
  separators \<open>\x1c\<close>, \<open>\x1d\<close>, \<open>\x1e\<close> and \<open>\x85\<close>; no empty piece follows a final line end.
\<close>

definition is_linebreak :: "char \<Rightarrow> bool" where
  "is_linebreak c = (c \<in> set [CHR 0x0A, CHR 0x0B, CHR 0x0C, CHR 0x0D, CHR 0x1C, CHR 0x1D, CHR 0x1E, CHR 0x85])"

fun splitlines_from :: "string \<Rightarrow> string \<Rightarrow> string list" where
  "splitlines_from cur [] = (if cur = [] then [] else [cur])"
| "splitlines_from cur [c] = (if is_linebreak c then [cur] else [cur @ [c]])"
| "splitlines_from cur (c # d # cs) =
     (if c = CHR 0x0D \<and> d = CHR 0x0A then cur # splitlines_from [] cs
      else if is_linebreak c then cur # splitlines_from [] (d # cs)
      else splitlines_from (cur @ [c]) (d # cs))"

definition splitlines :: "string \<Rightarrow> string list" where
  "splitlines s = splitlines_from [] s"

text \<open>\<open>s.strip()\<close>: drops the white space at both ends.\<close>

definition is_space :: "char \<Rightarrow> bool" where
  "is_space c = (c \<in> set [CHR 0x09, CHR 0x0A, CHR 0x0B, CHR 0x0C, CHR 0x0D, CHR 0x1C, CHR 0x1D,
                            CHR 0x1E, CHR 0x1F, CHR 0x20, CHR 0x85, CHR 0xA0])"

definition strip :: "string \<Rightarrow> string" where
  "strip s = rev (dropWhile is_space (rev (dropWhile is_space s)))"

text \<open>\<open>line.split("\t", 1)[-1]\<close>: what follows the first tab, or the whole line when it has none.\<close>

fun after_first_tab :: "string \<Rightarrow> string" where
  "after_first_tab line =
     (if CHR 0x09 \<in> set line then tl (dropWhile (\<lambda>c. c \<noteq> CHR 0x09) line) else line)"

text \<open>\<open>s.lower()\<close> on code points below 256: A to Z and the accented capitals move by 32.\<close>

definition lower_char :: "char \<Rightarrow> char" where
  "lower_char c =
     (let n = (of_char c :: nat)
      in if (65 \<le> n \<and> n \<le> 90) \<or> (192 \<le> n \<and> n \<le> 222 \<and> n \<noteq> 215) then char_of (n + 32) else c)"

definition lower :: "string \<Rightarrow> string" where
  "lower s = map lower_char s"

section \<open>The processes and files the tools read\<close>

text \<open>
  \<open>subprocess.run(argv, capture_output=True, text=True, check=c, cwd=d)\<close> is a call into the
  library: it raises (with \<open>check=True\<close>, \<open>CalledProcessError\<close> on a non-zero exit status)
  or returns the completed process. The outcome is given by the environment as a function
  of \<open>argv\<close>, \<open>cwd\<close> and \<open>check\<close>.
\<close>

record completed_process =
  returncode :: int
  stdout :: string
  stderr :: string

type_synonym subprocess = "string list \<Rightarrow> string option \<Rightarrow> bool \<Rightarrow> py_exn + completed_process"

section \<open>GitHub Actions integration server: changes and templates\<close>

definition DEFAULT_TEMPLATES :: "(string \<times> string) list" where
  "DEFAULT_TEMPLATES =
     [(''bug.md'', ''Bug Fix''),
      (''feature.md'', ''Feature''),
      (''docs.md'', ''Documentation''),
      (''refactor.md'', ''Refactor''),
      (''test.md'', ''Test''),
      (''performance.md'', ''Performance''),
      (''security.md'', ''Security'')]"

definition TYPE_MAPPING :: "(string \<times> string) list" where
  "TYPE_MAPPING =
     [(''bug'', ''bug.md''),
      (''fix'', ''bug.md''),
      (''feature'', ''feature.md''),
      (''enhancement'', ''feature.md''),
      (''docs'', ''docs.md''),
      (''documentation'', ''docs.md''),
      (''refactor'', ''refactor.md''),
      (''cleanup'', ''refactor.md''),
      (''test'', ''test.md''),
      (''testing'', ''test.md''),
      (''performance'', ''performance.md''),
      (''optimization'', ''performance.md''),
      (''security'', ''security.md'')]"

text \<open>
  The truncation of the diff: the text of the diff as returned, the flag and
  \<open>len(diff_lines)\<close>.
\<close>

definition truncate_diff_m2 :: "string \<Rightarrow> int \<Rightarrow> string \<times> bool \<times> int" where
  "truncate_diff_m2 diff_stdout max_diff_lines =
     (let diff_lines = split_nl diff_stdout
      in if int (length diff_lines) > max_diff_lines
         then (join_nl (slice_to diff_lines max_diff_lines)
                 @ [CHR 0x0A, CHR 0x0A] @ ''... Output truncated. Showing '' @ str_int max_diff_lines
                 @ '' of '' @ str_int (int (length diff_lines)) @ '' lines ...''
                 @ [CHR 0x0A] @ ''... Use max_diff_lines parameter to see more ...'',
               True, int (length diff_lines))
         else (diff_stdout, False, int (length diff_lines)))"

definition analyze_file_changes_m2 :: "subprocess \<Rightarrow> string \<Rightarrow> bool \<Rightarrow> int \<Rightarrow> py_exn + json" where
  "analyze_file_changes_m2 run base_branch include_diff max_diff_lines =
     (case
        bind_exn (run [''git'', ''diff'', ''--name-status'', base_branch @ ''...HEAD''] None True)
          (\<lambda>files_result.
        bind_exn (run [''git'', ''diff'', ''--stat'', base_branch @ ''...HEAD''] None False)
          (\<lambda>stat_result.
        bind_exn
          (if include_diff
           then bind_exn (run [''git'', ''diff'', base_branch @ ''...HEAD''] None False)
                  (\<lambda>diff_result. Inr (truncate_diff_m2 (stdout diff_result) max_diff_lines))
           else Inr ([], False, 0))
          (\<lambda>(diff_content, truncated, total_diff_lines).
        bind_exn (run [''git'', ''log'', ''--oneline'', base_branch @ ''..HEAD''] None False)
          (\<lambda>commits_result.
        Inr (JObj
          [(''base_branch'', JStr base_branch),
           (''files_changed'', JStr (stdout files_result)),
           (''statistics'', JStr (stdout stat_result)),
           (''commits'', JStr (stdout commits_result)),
           (''diff'', JStr (if include_diff then diff_content
                            else ''Diff not included (set include_diff=true to see full diff)'')),
           (''truncated'', JBool truncated),
           (''total_diff_lines'', JInt total_diff_lines)])))))
      of
        Inr v \<Rightarrow> Inr v
      | Inl (CalledProcessError m err) \<Rightarrow> Inr (JObj [(''error'', JStr (''Git error: '' @ err))])
      | Inl e \<Rightarrow> Inr (JObj [(''error'', JStr (exn_str e))]))"

text \<open>
  The template files: \<open>read_text\<close> gives, for a file name, the outcome of
  \<open>(TEMPLATES_DIR / filename).read_text()\<close>. The comprehension reads the seven files in
  the order of the table and nothing catches what a read raises.
\<close>

fun collect_exn :: "('a \<Rightarrow> py_exn + 'b) \<Rightarrow> 'a list \<Rightarrow> py_exn + 'b list" where
  "collect_exn f [] = Inr []"
| "collect_exn f (x # xs) =
     bind_exn (f x) (\<lambda>y.
     bind_exn (collect_exn f xs) (\<lambda>ys.
     Inr (y # ys)))"

definition pr_templates_m2 :: "(string \<Rightarrow> py_exn + string) \<Rightarrow> py_exn + json list" where
  "pr_templates_m2 read_text =
     collect_exn
       (\<lambda>(filename, template_type).
          bind_exn (read_text filename) (\<lambda>content.
          Inr (JObj [(''filename'', JStr filename), (''type'', JStr template_type),
                     (''content'', JStr content)])))
       DEFAULT_TEMPLATES"

definition get_pr_templates_m2 :: "(string \<Rightarrow> py_exn + string) \<Rightarrow> py_exn + json" where
  "get_pr_templates_m2 read_text = bind_exn (pr_templates_m2 read_text) (\<lambda>templates. Inr (JList templates))"

text \<open>
  \<open>next((t for t in templates if t["filename"] == template_file), templates[0])\<close>: the
  default \<open>templates[0]\<close> is evaluated before the search starts.
\<close>

fun first_template :: "json list \<Rightarrow> string \<Rightarrow> json \<Rightarrow> py_exn + json" where
  "first_template [] template_file fallback = Inr fallback"
| "first_template (t # ts) template_file fallback =
     bind_exn (subscript t ''filename'') (\<lambda>filename.
     if py_eq filename (JStr template_file) then Inr t
     else first_template ts template_file fallback)"

text \<open>
  \<open>suggest_template\<close> decodes the string that \<open>get_pr_templates\<close> encoded;
  \<open>json.loads(json.dumps(v))\<close> is \<open>v\<close> for the list of templates.
\<close>

definition suggest_template_m2 :: "(string \<Rightarrow> py_exn + string) \<Rightarrow> string \<Rightarrow> string \<Rightarrow> py_exn + json" where
  "suggest_template_m2 read_text changes_summary change_type =
     bind_exn (pr_templates_m2 read_text) (\<lambda>templates.
     let template_file =
           (case map_of TYPE_MAPPING (lower change_type) of None \<Rightarrow> ''feature.md'' | Some f \<Rightarrow> f)
     in
     bind_exn (case templates of [] \<Rightarrow> Inl (IndexError ''list index out of range'') | t # _ \<Rightarrow> Inr t)
       (\<lambda>fallback.
     bind_exn (first_template templates template_file fallback) (\<lambda>selected_template.
     bind_exn (subscript selected_template ''content'') (\<lambda>template_content.
     Inr (JObj
       [(''recommended_template'', selected_template),
        (''reasoning'', JStr (''Based on your analysis: '' @ quote changes_summary
                              @ '', this appears to be a '' @ change_type @ '' change.'')),
        (''template_content'', template_content),
        (''usage_hint'', JStr ''Claude can help you fill out this template based on the specific changes in your PR.'')])))))"

section \<open>Basic server (module 1)\<close>

text \<open>
  The working directory: the first root the session declares; when asking for the roots
  raises, or there is none, \<open>os.getcwd()\<close>.
\<close>

definition working_directory_m1 :: "py_exn + string list \<Rightarrow> py_exn + string \<Rightarrow> py_exn + string" where
  "working_directory_m1 list_roots getcwd =
     (case list_roots of Inr (root # _) \<Rightarrow> Inr root | _ \<Rightarrow> getcwd)"

text \<open>The paths in the output of \<open>git diff --name-status\<close>.\<close>

definition changed_files_m1 :: "string \<Rightarrow> string list" where
  "changed_files_m1 files_stdout =
     map after_first_tab (filter (\<lambda>line. line \<noteq> []) (splitlines (strip files_stdout)))"

definition truncate_diff_m1 :: "string \<Rightarrow> int \<Rightarrow> string \<times> bool" where
  "truncate_diff_m1 diff_stdout max_diff_lines =
     (let diff_lines = splitlines diff_stdout
      in if int (length diff_lines) > max_diff_lines
         then (join_nl (slice_to diff_lines max_diff_lines), True)
         else (diff_stdout, False))"

text \<open>
  Modelled from the spec: the right-hand side of the assignment to
  \<open>response["diff_truncated"]\<close> is missing in the source (line 89 ends after the \<open>=\<close>).
  The spec asks to treat "diff truncated" as a plain boolean derived from the line-count
  comparison.
\<close>

definition diff_truncated_m1 :: "string \<Rightarrow> int \<Rightarrow> bool" where
  "diff_truncated_m1 diff_stdout max_diff_lines =
     (int (length (splitlines diff_stdout)) > max_diff_lines)"

definition analyze_file_changes_m1 ::
  "py_exn + string list \<Rightarrow> py_exn + string \<Rightarrow> subprocess \<Rightarrow> string \<Rightarrow> bool \<Rightarrow> int \<Rightarrow> py_exn + json" where
  "analyze_file_changes_m1 list_roots getcwd run base_branch include_diff max_diff_lines =
     (case
        bind_exn (working_directory_m1 list_roots getcwd) (\<lambda>working_directory.
        bind_exn (run [''git'', ''diff'', ''--name-status'', base_branch] (Some working_directory) True)
          (\<lambda>result_files.
        let files = changed_files_m1 (stdout result_files) in
        bind_exn
          (if include_diff
           then bind_exn (run [''git'', ''diff'', base_branch] (Some working_directory) True)
                  (\<lambda>result_diff.
                  Inr [(''diff'', JStr (fst (truncate_diff_m1 (stdout result_diff) max_diff_lines))),
                       (''diff_truncated'',
                          JBool (diff_truncated_m1 (stdout result_diff) max_diff_lines)),
                       (''diff_line_limit'', JInt max_diff_lines)])
           else Inr [])
          (\<lambda>diff_fields.
        Inr (JObj
          ([(''files_changed'', JList (map JStr files)),
            (''num_files_changed'', JInt (int (length files))),
            (''used_working_directory'', JStr working_directory)] @ diff_fields)))))
      of
        Inr v \<Rightarrow> Inr v
      | Inl (CalledProcessError m err) \<Rightarrow>
          Inr (JObj [(''error'', JStr ''Failed to analyze git changes''), (''details'', JStr m)])
      | Inl e \<Rightarrow>
          Inr (JObj [(''error'', JStr ''Unexpected error in analyze_file_changes''),
                     (''details'', JStr (exn_str e))]))"

text \<open>
  The template directory as a listing: each file name with the outcome of opening and
  reading the file. \<open>TEMPLATES_DIR.glob("*.md")\<close> yields the entries whose name ends in
  \<open>.md\<close>, in the order of the listing; \<open>path.exists()\<close> holds for the names listed.
\<close>

type_synonym template_dir = "(string \<times> (py_exn + string)) list"

definition glob_md :: "template_dir \<Rightarrow> template_dir" where
  "glob_md dir = filter (\<lambda>(name, _). 3 \<le> length name \<and> drop (length name - 3) name = ''.md'') dir"

text \<open>\<open>Path.stem\<close>: the name without its last suffix; a leading or a final dot starts no suffix.\<close>

definition stem :: "string \<Rightarrow> string" where
  "stem name =
     (if CHR ''.'' \<in> set name
      then (let i = length name - 1 - length (takeWhile (\<lambda>c. c \<noteq> CHR ''.'') (rev name))
            in if 0 < i \<and> i < length name - 1 then take i name else name)
      else name)"

definition read_templates_m1 :: "template_dir \<Rightarrow> py_exn + json list" where
  "read_templates_m1 dir =
     collect_exn
       (\<lambda>(name, opened).
          bind_exn opened (\<lambda>content.
          Inr (JObj [(''filename'', JStr name), (''name'', JStr (stem name)),
                     (''content'', JStr content)])))
       (glob_md dir)"

definition get_pr_templates_m1 :: "template_dir \<Rightarrow> py_exn + json" where
  "get_pr_templates_m1 dir =
     (case read_templates_m1 dir of
        Inr templates \<Rightarrow> Inr (JList templates)
      | Inl e \<Rightarrow> Inr (JObj [(''error'', JStr ''Failed to read templates''),
                             (''details'', JStr (exn_str e))]))"

definition type_map_m1 :: "(string \<times> string) list" where
  "type_map_m1 =
     [(''bug'', ''bug.md''),
      (''feature'', ''feature.md''),
      (''docs'', ''docs.md''),
      (''documentation'', ''docs.md''),
      (''refactor'', ''refactor.md''),
      (''test'', ''test.md''),
      (''performance'', ''performance.md''),
      (''security'', ''security.md'')]"

definition suggest_template_m1 :: "template_dir \<Rightarrow> string \<Rightarrow> string \<Rightarrow> py_exn + json" where
  "suggest_template_m1 dir changes_summary change_type =
     (case
        (case map_of type_map_m1 (lower change_type) of
           Some template_file \<Rightarrow>
             (case map_of dir template_file of
                Some opened \<Rightarrow>
                  bind_exn opened (\<lambda>content.
                  Inr (JObj [(''recommended_template'', JStr template_file),
                             (''template_content'', JStr content)]))
              | None \<Rightarrow>
                  Inr (JObj [(''error'', JStr (''Template '' @ quote template_file @ '' not found.''))]))
         | None \<Rightarrow>
             bind_exn (read_templates_m1 dir) (\<lambda>templates.
             Inr (JObj [(''error'', JStr (''Unknown change_type '' @ quote change_type
                                          @ ''. Returning all templates.'')),
                        (''templates'', JList templates)])))
      of
        Inr v \<Rightarrow> Inr v
      | Inl e \<Rightarrow> Inr (JObj [(''error'', JStr ''Failed to suggest template''),
                             (''details'', JStr (exn_str e))]))"

text \<open>Reading a response: the value under a key of the object returned, if any.\<close>

fun field :: "py_exn + json \<Rightarrow> string \<Rightarrow> json option" where
  "field (Inr (JObj kv)) k = map_of kv k"
| "field _ k = None"

section \<open>Example environments\<close>

text \<open>
  A repository with one modified file whose diff is the three lines \<open>a\<close>, \<open>b\<close>, \<open>c\<close>
  (no final newline), every git command succeeding.
\<close>

definition example_git :: subprocess where
  "example_git argv cwd check =
     Inr \<lparr>returncode = 0,
          stdout = (if ''--name-status'' \<in> set argv then ''M'' @ [CHR 0x09] @ ''server.py'' @ [CHR 0x0A]
                    else if length argv = 3 then ''a'' @ [CHR 0x0A] @ ''b'' @ [CHR 0x0A] @ ''c''
                    else []),
          stderr = []\<rparr>"

text \<open>A template directory with two templates and a file that is no template.\<close>

definition example_dir :: template_dir where
  "example_dir = [(''bug.md'', Inr ''# Bug''), (''notes.txt'', Inr ''todo''), (''docs.md'', Inr ''# Docs'')]"

section \<open>Notions used to state the properties of the status summary\<close>

text \<open>The name an event is grouped under, and the entry that records an event.\<close>

definition event_name :: "(string \<times> json) list \<Rightarrow> json" where
  "event_name kv = (case map_of kv ''workflow_name'' of None \<Rightarrow> JStr ''unknown'' | Some v \<Rightarrow> v)"

definition event_field :: "(string \<times> json) list \<Rightarrow> string \<Rightarrow> json" where
  "event_field kv k = (case map_of kv k of None \<Rightarrow> JNull | Some v \<Rightarrow> v)"

definition recorded_entry :: "(string \<times> json) list \<Rightarrow> json" where
  "recorded_entry kv =
     JObj [(''workflow_name'', event_name kv),
           (''run_id'', event_field kv ''run_id''),
           (''status'', event_field kv ''status''),
           (''conclusion'', event_field kv ''conclusion''),
           (''updated_at'', event_field kv ''updated_at'')]"

text \<open>An event passes the optional name filter of \<open>get_workflow_status\<close>.\<close>

definition passes_filter :: "string option \<Rightarrow> (string \<times> json) list \<Rightarrow> bool" where
  "passes_filter workflow_name kv =
     (case workflow_name of
        None \<Rightarrow> True
      | Some n \<Rightarrow> n = [] \<or> map_of kv ''workflow_name'' = Some (JStr n))"

section \<open>Basic facts\<close>

lemma bind_exn_simps [simp]:
  "bind_exn (Inl e) f = Inl e"
  "bind_exn (Inr a) f = f a"
  by (simp_all add: bind_exn_def)

section \<open>Recent events\<close>

text \<open>
  For a positive limit the slice \<open>events[-limit:]\<close> is the suffix of the last \<open>limit\<close>
  events (the whole log when it is shorter).
\<close>

lemma recent_events_positive_limit:
  "0 < limit \<Longrightarrow>
   get_recent_actions_events (Present (Inr (JList events))) limit
     = Inr (JList (drop (length events - nat limit) events))"
  by (simp add: get_recent_actions_events_def slice_from_def nat_diff_distrib')

lemma recent_events_missing_file:
  "get_recent_actions_events Missing limit = Inr (JList [])"
  by (simp add: get_recent_actions_events_def)

lemma recent_events_empty_log:
  "get_recent_actions_events (Present (Inr (JList []))) limit = Inr (JList [])"
  by (simp add: get_recent_actions_events_def slice_from_def)

text \<open>
  Claim C7. \<open>get_recent_actions_events(N)\<close> is to return the last \<open>N\<close> entries of the log;
  the docstring calls \<open>limit\<close> the maximum number of events to return. At \<open>limit = 0\<close> on a
  log of two events the code returns both events, not none.
\<close>

theorem recent_events_limit_zero_returns_all:
  "get_recent_actions_events
     (Present (Inr (JList [JObj [(''event'', JStr ''push'')], JObj [(''event'', JStr ''ping'')]]))) 0
   = Inr (JList [JObj [(''event'', JStr ''push'')], JObj [(''event'', JStr ''ping'')]])"
  by (simp add: get_recent_actions_events_def slice_from_def)

text \<open>
  Claim C9. On a log that holds a list of events, \<open>limit = 0\<close> returns every event (so a
  non-empty log never gives the empty list), because \<open>events[-0:]\<close> is \<open>events[0:]\<close>; a
  negative limit returns all but the first \<open>|limit|\<close> events.
\<close>

theorem recent_events_nonpositive_limit:
  "get_recent_actions_events (Present (Inr (JList events))) 0 = Inr (JList events)
   \<and> (events \<noteq> [] \<longrightarrow>
        get_recent_actions_events (Present (Inr (JList events))) 0 \<noteq> Inr (JList []))
   \<and> (limit < 0 \<longrightarrow>
        get_recent_actions_events (Present (Inr (JList events))) limit
          = Inr (JList (drop (nat (- limit)) events)))"
  by (simp add: get_recent_actions_events_def slice_from_def)

theorem recent_events_nonpositive_limit_witness:
  "get_recent_actions_events (Present (Inr (JList [JInt 1, JInt 2, JInt 3]))) 0 \<noteq> Inr (JList [])
   \<and> get_recent_actions_events (Present (Inr (JList [JInt 1, JInt 2, JInt 3]))) (- 1)
      = Inr (JList [JInt 2, JInt 3])"
  using recent_events_nonpositive_limit [of "[JInt 1, JInt 2, JInt 3]" "- 1"]
  by simp

section \<open>Which operations can raise\<close>

text \<open>
  The operations with a \<open>try\<close> block around their body always return a value.
\<close>

lemma analyze_file_changes_m2_returns:
  "\<exists>v. analyze_file_changes_m2 run base_branch include_diff max_diff_lines = Inr v"
  by (simp add: analyze_file_changes_m2_def split: sum.splits py_exn.splits)

lemma analyze_file_changes_m1_returns:
  "\<exists>v. analyze_file_changes_m1 list_roots getcwd run base_branch include_diff max_diff_lines = Inr v"
  by (simp add: analyze_file_changes_m1_def split: sum.splits py_exn.splits)

lemma get_recent_actions_events_returns:
  "\<exists>v. get_recent_actions_events file limit = Inr v"
  by (simp add: get_recent_actions_events_def split: sum.splits)

lemma get_workflow_status_returns:
  "\<exists>v. get_workflow_status file workflow_name = Inr v"
  by (simp add: get_workflow_status_def split: sum.splits)

lemma get_pr_templates_m1_returns:
  "\<exists>v. get_pr_templates_m1 dir = Inr v"
  by (simp add: get_pr_templates_m1_def split: sum.splits)

lemma suggest_template_m1_returns:
  "\<exists>v. suggest_template_m1 dir changes_summary change_type = Inr v"
  by (simp add: suggest_template_m1_def split: sum.splits)

text \<open>A failing \<open>git diff --name-status\<close> is reported with the command's standard error.\<close>

lemma analyze_file_changes_m2_git_error:
  "run [''git'', ''diff'', ''--name-status'', base_branch @ ''...HEAD''] None True
     = Inl (CalledProcessError m err) \<Longrightarrow>
   analyze_file_changes_m2 run base_branch include_diff max_diff_lines
     = Inr (JObj [(''error'', JStr (''Git error: '' @ err))])"
  by (simp add: analyze_file_changes_m2_def)

lemma analyze_file_changes_m1_git_error:
  "working_directory_m1 list_roots getcwd = Inr wd \<Longrightarrow>
   run [''git'', ''diff'', ''--name-status'', base_branch] (Some wd) True
     = Inl (CalledProcessError m err) \<Longrightarrow>
   analyze_file_changes_m1 list_roots getcwd run base_branch include_diff max_diff_lines
     = Inr (JObj [(''error'', JStr ''Failed to analyze git changes''), (''details'', JStr m)])"
  by (simp add: analyze_file_changes_m1_def)

text \<open>
  Claim C3. No operation is to raise across its boundary. In the GitHub Actions server
  \<open>get_pr_templates\<close> and \<open>suggest_template\<close> have no \<open>try\<close> block: when the template
  files cannot be read, the \<open>OSError\<close> of \<open>read_text\<close> leaves both operations, where the
  same operations of the basic server return an error object.
\<close>

theorem templates_unreadable_raises:
  "get_pr_templates_m2 (\<lambda>filename. Inl (OSError ''[Errno 2] No such file or directory''))
     = Inl (OSError ''[Errno 2] No such file or directory'')
   \<and> suggest_template_m2 (\<lambda>filename. Inl (OSError ''[Errno 2] No such file or directory''))
        ''fix a typo'' ''docs''
     = Inl (OSError ''[Errno 2] No such file or directory'')"
  by (simp add: get_pr_templates_m2_def suggest_template_m2_def pr_templates_m2_def
      DEFAULT_TEMPLATES_def)

section \<open>Template suggestion\<close>

lemma type_mapping_values:
  "map_of TYPE_MAPPING k = Some f \<Longrightarrow>
   f \<in> {''bug.md'', ''feature.md'', ''docs.md'', ''refactor.md'', ''test.md'',
        ''performance.md'', ''security.md''}"
  by (auto simp: TYPE_MAPPING_def split: if_splits)

lemma pr_templates_m2_readable:
  assumes "\<forall>f \<in> set (map fst DEFAULT_TEMPLATES). read_text f = Inr (content f)"
  shows "pr_templates_m2 read_text =
           Inr (map (\<lambda>(filename, template_type).
                       JObj [(''filename'', JStr filename), (''type'', JStr template_type),
                             (''content'', JStr (content filename))]) DEFAULT_TEMPLATES)"
  using assms by (simp add: pr_templates_m2_def DEFAULT_TEMPLATES_def)

lemma suggest_template_m2_hit:
  assumes hit: "map_of TYPE_MAPPING (lower change_type) = Some template_file"
    and readable: "\<forall>f \<in> set (map fst DEFAULT_TEMPLATES). read_text f = Inr (content f)"
  shows "\<exists>ty. map_of DEFAULT_TEMPLATES template_file = Some ty \<and>
           suggest_template_m2 read_text changes_summary change_type =
           Inr (JObj
             [(''recommended_template'',
                 JObj [(''filename'', JStr template_file), (''type'', JStr ty),
                       (''content'', JStr (content template_file))]),
              (''reasoning'', JStr (''Based on your analysis: '' @ quote changes_summary
                              @ '', this appears to be a '' @ change_type @ '' change.'')),
              (''template_content'', JStr (content template_file)),
              (''usage_hint'', JStr ''Claude can help you fill out this template based on the specific changes in your PR.'')])"
proof -
  have "template_file \<in> {''bug.md'', ''feature.md'', ''docs.md'', ''refactor.md'', ''test.md'',
                          ''performance.md'', ''security.md''}"
    using hit by (rule type_mapping_values)
  then show ?thesis
    unfolding suggest_template_m2_def pr_templates_m2_readable [OF readable] hit
    by (auto simp: DEFAULT_TEMPLATES_def)
qed

lemma suggest_template_m2_miss:
  assumes miss: "map_of TYPE_MAPPING (lower change_type) = None"
    and readable: "\<forall>f \<in> set (map fst DEFAULT_TEMPLATES). read_text f = Inr (content f)"
  shows "suggest_template_m2 read_text changes_summary change_type =
           Inr (JObj
             [(''recommended_template'',
                 JObj [(''filename'', JStr ''feature.md''), (''type'', JStr ''Feature''),
                       (''content'', JStr (content ''feature.md''))]),
              (''reasoning'', JStr (''Based on your analysis: '' @ quote changes_summary
                              @ '', this appears to be a '' @ change_type @ '' change.'')),
              (''template_content'', JStr (content ''feature.md'')),
              (''usage_hint'', JStr ''Claude can help you fill out this template based on the specific changes in your PR.'')])"
  unfolding suggest_template_m2_def pr_templates_m2_readable [OF readable] miss
  by (simp add: DEFAULT_TEMPLATES_def)

lemma glob_md_readable:
  "glob_md (map (\<lambda>(name, text). (name, Inr text)) files)
     = map (\<lambda>(name, text). (name, Inr text))
         (filter (\<lambda>(name, _). 3 \<le> length name \<and> drop (length name - 3) name = ''.md'') files)"
  by (induction files) (auto simp: glob_md_def)

lemma read_templates_m1_readable:
  "read_templates_m1 (map (\<lambda>(name, text). (name, Inr text)) files) =
     Inr (map (\<lambda>(name, text). JObj [(''filename'', JStr name), (''name'', JStr (stem name)),
                                      (''content'', JStr text)])
            (filter (\<lambda>(name, _). 3 \<le> length name \<and> drop (length name - 3) name = ''.md'') files))"
proof -
  have "collect_exn
          (\<lambda>(name, opened). bind_exn opened (\<lambda>content.
              Inr (JObj [(''filename'', JStr name), (''name'', JStr (stem name)),
                         (''content'', JStr content)])))
          (map (\<lambda>(name, text). (name, Inr text)) xs)
        = Inr (map (\<lambda>(name, text). JObj [(''filename'', JStr name), (''name'', JStr (stem name)),
                                          (''content'', JStr text)]) xs)"
    for xs :: "(string \<times> string) list"
    by (induction xs) auto
  then show ?thesis
    by (simp add: read_templates_m1_def glob_md_readable)
qed

lemma suggest_template_m1_miss:
  assumes "map_of type_map_m1 (lower change_type) = None"
    and "read_templates_m1 dir = Inr templates"
  shows "suggest_template_m1 dir changes_summary change_type =
           Inr (JObj [(''error'', JStr (''Unknown change_type '' @ quote change_type
                                          @ ''. Returning all templates.'')),
                      (''templates'', JList templates)])"
  using assms by (simp add: suggest_template_m1_def)

lemma suggest_template_m1_hit:
  assumes "map_of type_map_m1 (lower change_type) = Some template_file"
    and "map_of dir template_file = Some (Inr text)"
  shows "suggest_template_m1 dir changes_summary change_type =
           Inr (JObj [(''recommended_template'', JStr template_file),
                      (''template_content'', JStr text)])"
  using assms by (simp add: suggest_template_m1_def)

text \<open>
  Claim C4, as stated: an unknown change type gives the default template together with
  an error field and the full template set. Neither server does all three. For
  \<open>chore\<close>, which is in no table, the GitHub Actions server recommends \<open>feature.md\<close>
  (the second entry of its table) with no \<open>error\<close> and no \<open>templates\<close> field, and the
  basic server returns \<open>error\<close> and \<open>templates\<close> with no recommended template.
\<close>

theorem suggest_template_unknown_type_counterexample:
  "map_of TYPE_MAPPING (lower ''chore'') = None
   \<and> map_of type_map_m1 (lower ''chore'') = None
   \<and> field (suggest_template_m2 (\<lambda>filename. Inr filename) ''tidy up'' ''chore'') ''error'' = None
   \<and> field (suggest_template_m2 (\<lambda>filename. Inr filename) ''tidy up'' ''chore'') ''templates'' = None
   \<and> field (suggest_template_m2 (\<lambda>filename. Inr filename) ''tidy up'' ''chore'')
        ''recommended_template''
      = Some (JObj [(''filename'', JStr ''feature.md''), (''type'', JStr ''Feature''),
                    (''content'', JStr ''feature.md'')])
   \<and> field (suggest_template_m1 example_dir ''tidy up'' ''chore'') ''recommended_template'' = None"
  by code_simp

text \<open>
  Claim C4, amended. For a change type whose lower-cased form is not a key of the
  server's table: the GitHub Actions server, when the seven template files can be read,
  returns the \<open>feature.md\<close> template as \<open>recommended_template\<close> with its content, a
  reasoning and a usage hint, and neither an \<open>error\<close> nor a \<open>templates\<close> field; the basic
  server, when the files of the template directory can be read, returns exactly an
  \<open>error\<close> string naming the change type and \<open>templates\<close>, the list of all \<open>*.md\<close>
  templates of the directory.
\<close>

theorem suggest_template_unknown_type:
  "(map_of TYPE_MAPPING (lower change_type) = None
      \<and> (\<forall>f \<in> set (map fst DEFAULT_TEMPLATES). read_text f = Inr (content f))
    \<longrightarrow> suggest_template_m2 read_text changes_summary change_type =
          Inr (JObj
            [(''recommended_template'',
                JObj [(''filename'', JStr ''feature.md''), (''type'', JStr ''Feature''),
                      (''content'', JStr (content ''feature.md''))]),
             (''reasoning'', JStr (''Based on your analysis: '' @ quote changes_summary
                             @ '', this appears to be a '' @ change_type @ '' change.'')),
             (''template_content'', JStr (content ''feature.md'')),
             (''usage_hint'', JStr ''Claude can help you fill out this template based on the specific changes in your PR.'')]))
   \<and> (map_of type_map_m1 (lower change_type) = None
    \<longrightarrow> suggest_template_m1 (map (\<lambda>(name, text). (name, Inr text)) files)
            changes_summary change_type =
          Inr (JObj
            [(''error'', JStr (''Unknown change_type '' @ quote change_type
                               @ ''. Returning all templates.'')),
             (''templates'',
                JList (map (\<lambda>(name, text).
                              JObj [(''filename'', JStr name), (''name'', JStr (stem name)),
                                    (''content'', JStr text)])
                         (filter (\<lambda>(name, _). 3 \<le> length name
                                    \<and> drop (length name - 3) name = ''.md'') files)))]))"
  using suggest_template_m2_miss [of change_type read_text content changes_summary]
    suggest_template_m1_miss [OF _ read_templates_m1_readable, of change_type files changes_summary]
  by blast

theorem suggest_template_unknown_type_witness:
  "suggest_template_m2 (\<lambda>filename. Inr filename) ''tidy up'' ''chore'' =
     Inr (JObj
       [(''recommended_template'',
           JObj [(''filename'', JStr ''feature.md''), (''type'', JStr ''Feature''),
                 (''content'', JStr ''feature.md'')]),
        (''reasoning'', JStr (''Based on your analysis: '' @ quote ''tidy up''
                        @ '', this appears to be a '' @ ''chore'' @ '' change.'')),
        (''template_content'', JStr ''feature.md''),
        (''usage_hint'', JStr ''Claude can help you fill out this template based on the specific changes in your PR.'')])
   \<and> suggest_template_m1 [(''bug.md'', Inr ''# Bug''), (''notes.txt'', Inr ''todo'')]
        ''tidy up'' ''chore'' =
     Inr (JObj
       [(''error'', JStr (''Unknown change_type '' @ quote ''chore'' @ ''. Returning all templates.'')),
        (''templates'',
           JList [JObj [(''filename'', JStr ''bug.md''), (''name'', JStr ''bug''),
                        (''content'', JStr ''# Bug'')]])])"
proof -
  have miss2: "map_of TYPE_MAPPING (lower ''chore'') = None"
    by code_simp
  have miss1: "map_of type_map_m1 (lower ''chore'') = None"
    by code_simp
  have readable: "\<forall>f \<in> set (map fst DEFAULT_TEMPLATES). (\<lambda>filename. Inr filename) f = Inr ((\<lambda>x. x) f)"
    by simp
  have stem_bug: "stem ''bug.md'' = ''bug''"
    by code_simp
  show ?thesis
    using suggest_template_unknown_type
      [where change_type = "''chore''" and read_text = "\<lambda>filename. Inr filename"
         and content = "\<lambda>x. x" and changes_summary = "''tidy up''"
         and files = "[(''bug.md'', ''# Bug''), (''notes.txt'', ''todo'')]"]
      miss1 miss2 readable
    by (simp add: stem_bug)
qed

text \<open>
  Claim C5, as stated: a change type whose lower-cased form is a key of the table gets
  the mapped file as \<open>recommended_template\<close>, with no \<open>error\<close> field. In the basic server
  the guard \<open>path.exists()\<close> answers \<open>docs\<close> with the error "Template 'docs.md' not
  found." when the directory holds no \<open>docs.md\<close>; and \<open>fix\<close>, a key of the table of the
  GitHub Actions server, is no key of the table of the basic server, which answers it
  with the error for an unknown change type.
\<close>

theorem suggest_template_known_type_counterexample:
  "map_of TYPE_MAPPING (lower ''docs'') = Some ''docs.md''
   \<and> map_of type_map_m1 (lower ''docs'') = Some ''docs.md''
   \<and> field (suggest_template_m1 [(''bug.md'', Inr ''# Bug'')] ''typo'' ''docs'') ''error''
     = Some (JStr (''Template '' @ quote ''docs.md'' @ '' not found.''))
   \<and> field (suggest_template_m1 [(''bug.md'', Inr ''# Bug'')] ''typo'' ''docs'')
        ''recommended_template'' = None
   \<and> map_of TYPE_MAPPING (lower ''fix'') = Some ''bug.md''
   \<and> field (suggest_template_m1 example_dir ''typo'' ''fix'') ''error''
     = Some (JStr (''Unknown change_type '' @ quote ''fix'' @ ''. Returning all templates.''))
   \<and> field (suggest_template_m1 example_dir ''typo'' ''fix'') ''recommended_template'' = None"
  by code_simp

text \<open>
  Claim C5, amended. For a change type whose lower-cased form is a key of the server's
  own table: the GitHub Actions server, when the seven template files can be read,
  returns as \<open>recommended_template\<close> the template whose \<open>filename\<close> is the one its table
  maps to, with no \<open>error\<close> field; the basic server, when the mapped file is in the
  template directory and can be read, returns that file name as \<open>recommended_template\<close>
  with the content of the file, and no \<open>error\<close> field.
\<close>

theorem suggest_template_known_type:
  "(map_of TYPE_MAPPING (lower change_type) = Some template_file
      \<and> (\<forall>f \<in> set (map fst DEFAULT_TEMPLATES). read_text f = Inr (content f))
    \<longrightarrow> (\<exists>ty. field (suggest_template_m2 read_text changes_summary change_type)
                 ''recommended_template''
               = Some (JObj [(''filename'', JStr template_file), (''type'', JStr ty),
                             (''content'', JStr (content template_file))]))
        \<and> field (suggest_template_m2 read_text changes_summary change_type) ''error'' = None)
   \<and> (map_of type_map_m1 (lower change_type) = Some template_file
      \<and> map_of dir template_file = Some (Inr body)
    \<longrightarrow> field (suggest_template_m1 dir changes_summary change_type) ''recommended_template''
          = Some (JStr template_file)
        \<and> field (suggest_template_m1 dir changes_summary change_type) ''template_content''
          = Some (JStr body)
        \<and> field (suggest_template_m1 dir changes_summary change_type) ''error'' = None)"
proof (intro conjI impI)
  assume h: "map_of TYPE_MAPPING (lower change_type) = Some template_file
      \<and> (\<forall>f \<in> set (map fst DEFAULT_TEMPLATES). read_text f = Inr (content f))"
  from suggest_template_m2_hit [of change_type template_file read_text content changes_summary] h
  obtain ty where
    r: "suggest_template_m2 read_text changes_summary change_type =
           Inr (JObj
             [(''recommended_template'',
                 JObj [(''filename'', JStr template_file), (''type'', JStr ty),
                       (''content'', JStr (content template_file))]),
              (''reasoning'', JStr (''Based on your analysis: '' @ quote changes_summary
                              @ '', this appears to be a '' @ change_type @ '' change.'')),
              (''template_content'', JStr (content template_file)),
              (''usage_hint'', JStr ''Claude can help you fill out this template based on the specific changes in your PR.'')])"
    by blast
  show "\<exists>ty. field (suggest_template_m2 read_text changes_summary change_type)
                 ''recommended_template''
               = Some (JObj [(''filename'', JStr template_file), (''type'', JStr ty),
                             (''content'', JStr (content template_file))])"
    unfolding r by simp
  show "field (suggest_template_m2 read_text changes_summary change_type) ''error'' = None"
    unfolding r by simp
next
  assume h: "map_of type_map_m1 (lower change_type) = Some template_file
      \<and> map_of dir template_file = Some (Inr body)"
  then have r: "suggest_template_m1 dir changes_summary change_type =
           Inr (JObj [(''recommended_template'', JStr template_file),
                      (''template_content'', JStr body)])"
    by (simp add: suggest_template_m1_hit)
  show "field (suggest_template_m1 dir changes_summary change_type) ''recommended_template''
          = Some (JStr template_file)"
    unfolding r by simp
  show "field (suggest_template_m1 dir changes_summary change_type) ''template_content''
          = Some (JStr body)"
    unfolding r by simp
  show "field (suggest_template_m1 dir changes_summary change_type) ''error'' = None"
    unfolding r by simp
qed

theorem suggest_template_known_type_witness:
  "(\<exists>ty. field (suggest_template_m2 (\<lambda>filename. Inr filename) ''typo'' ''Docs'')
            ''recommended_template''
          = Some (JObj [(''filename'', JStr ''docs.md''), (''type'', JStr ty),
                        (''content'', JStr ''docs.md'')]))
   \<and> field (suggest_template_m2 (\<lambda>filename. Inr filename) ''typo'' ''Docs'') ''error'' = None
   \<and> field (suggest_template_m1 example_dir ''typo'' ''Docs'') ''recommended_template''
      = Some (JStr ''docs.md'')
   \<and> field (suggest_template_m1 example_dir ''typo'' ''Docs'') ''template_content''
      = Some (JStr ''# Docs'')
   \<and> field (suggest_template_m1 example_dir ''typo'' ''Docs'') ''error'' = None"
proof -
  have hit2: "map_of TYPE_MAPPING (lower ''Docs'') = Some ''docs.md''"
    by code_simp
  have hit1: "map_of type_map_m1 (lower ''Docs'') = Some ''docs.md''"
    by code_simp
  have present: "map_of example_dir ''docs.md'' = Some (Inr ''# Docs'')"
    by (simp add: example_dir_def)
  have readable: "\<forall>f \<in> set (map fst DEFAULT_TEMPLATES). (\<lambda>filename. Inr filename) f = Inr ((\<lambda>x. x) f)"
    by simp
  show ?thesis
    using suggest_template_known_type
      [where change_type = "''Docs''" and template_file = "''docs.md''"
         and read_text = "\<lambda>filename. Inr filename" and content = "\<lambda>x. x"
         and changes_summary = "''typo''" and dir = example_dir and body = "''# Docs''"]
      hit1 hit2 present readable
    by simp
qed

section \<open>Change analysis\<close>

text \<open>
  Claim C6, as stated: without the diff, \<open>files_changed\<close> is a list of paths, the count
  reported is its length and no diff field is populated. The GitHub Actions server
  returns the raw output of \<open>git diff --name-status\<close> as one string, reports no count,
  and fills \<open>diff\<close> with a fixed notice.
\<close>

theorem analyze_without_diff_counterexample:
  "field (analyze_file_changes_m2 example_git ''main'' False 500) ''diff''
     = Some (JStr ''Diff not included (set include_diff=true to see full diff)'')
   \<and> field (analyze_file_changes_m2 example_git ''main'' False 500) ''files_changed''
     = Some (JStr (''M'' @ [CHR 0x09] @ ''server.py'' @ [CHR 0x0A]))
   \<and> field (analyze_file_changes_m2 example_git ''main'' False 500) ''num_files_changed'' = None"
  by (simp add: analyze_file_changes_m2_def example_git_def)

text \<open>
  Claim C6, amended. With \<open>include_diff\<close> false and the git commands succeeding: the
  basic server returns exactly \<open>files_changed\<close> (the list of the paths in the
  name-status output), \<open>num_files_changed\<close> (the length of that list) and
  \<open>used_working_directory\<close>, with no diff field; the GitHub Actions server returns
  \<open>files_changed\<close> as the raw name-status output, no count, \<open>diff\<close> holding the notice
  "Diff not included (set include_diff=true to see full diff)", \<open>truncated\<close> false and
  \<open>total_diff_lines\<close> zero.
\<close>

theorem analyze_without_diff:
  "(working_directory_m1 list_roots getcwd = Inr wd
      \<and> run1 [''git'', ''diff'', ''--name-status'', base_branch] (Some wd) True = Inr p
    \<longrightarrow> analyze_file_changes_m1 list_roots getcwd run1 base_branch False max_diff_lines =
          Inr (JObj
            [(''files_changed'', JList (map JStr (changed_files_m1 (stdout p)))),
             (''num_files_changed'', JInt (int (length (changed_files_m1 (stdout p))))),
             (''used_working_directory'', JStr wd)]))
   \<and> (run2 [''git'', ''diff'', ''--name-status'', base_branch @ ''...HEAD''] None True = Inr files_result
      \<and> run2 [''git'', ''diff'', ''--stat'', base_branch @ ''...HEAD''] None False = Inr stat_result
      \<and> run2 [''git'', ''log'', ''--oneline'', base_branch @ ''..HEAD''] None False = Inr commits_result
    \<longrightarrow> analyze_file_changes_m2 run2 base_branch False max_diff_lines =
          Inr (JObj
            [(''base_branch'', JStr base_branch),
             (''files_changed'', JStr (stdout files_result)),
             (''statistics'', JStr (stdout stat_result)),
             (''commits'', JStr (stdout commits_result)),
             (''diff'', JStr ''Diff not included (set include_diff=true to see full diff)''),
             (''truncated'', JBool False),
             (''total_diff_lines'', JInt 0)]))"
  by (simp add: analyze_file_changes_m1_def analyze_file_changes_m2_def Let_def)

theorem analyze_without_diff_witness:
  "analyze_file_changes_m1 (Inr [''/repo'']) (Inr ''/home'') example_git ''main'' False 500 =
     Inr (JObj [(''files_changed'', JList [JStr ''server.py'']),
                (''num_files_changed'', JInt 1),
                (''used_working_directory'', JStr ''/repo'')])
   \<and> analyze_file_changes_m2 example_git ''main'' False 500 =
     Inr (JObj
       [(''base_branch'', JStr ''main''),
        (''files_changed'', JStr (''M'' @ [CHR 0x09] @ ''server.py'' @ [CHR 0x0A])),
        (''statistics'', JStr []),
        (''commits'', JStr []),
        (''diff'', JStr ''Diff not included (set include_diff=true to see full diff)''),
        (''truncated'', JBool False),
        (''total_diff_lines'', JInt 0)])"
proof -
  have wd: "working_directory_m1 (Inr [''/repo'']) (Inr ''/home'') = Inr ''/repo''"
    by (simp add: working_directory_m1_def)
  have files: "changed_files_m1 (''M'' @ [CHR 0x09] @ ''server.py'' @ [CHR 0x0A]) = [''server.py'']"
    by code_simp
  show ?thesis
    using analyze_without_diff
      [where list_roots = "Inr [''/repo'']" and getcwd = "Inr ''/home''" and wd = "''/repo''"
         and ?run1.0 = example_git and ?run2.0 = example_git and base_branch = "''main''"
         and p = "\<lparr>returncode = 0, stdout = ''M'' @ [CHR 0x09] @ ''server.py'' @ [CHR 0x0A], stderr = []\<rparr>"
         and files_result = "\<lparr>returncode = 0, stdout = ''M'' @ [CHR 0x09] @ ''server.py'' @ [CHR 0x0A], stderr = []\<rparr>"
         and stat_result = "\<lparr>returncode = 0, stdout = [], stderr = []\<rparr>"
         and commits_result = "\<lparr>returncode = 0, stdout = [], stderr = []\<rparr>"
         and max_diff_lines = 500]
      wd files
    by (simp add: example_git_def)
qed

subsection \<open>Lines of a diff\<close>

lemma split_nl_not_Nil [simp]: "split_nl s \<noteq> []"
  by (induction s) (auto split: list.splits)




lemma join_split_nl: "join_nl (split_nl s) = s"
proof (induction s)
  case Nil
  show ?case by simp
next
  case (Cons c cs)
  show ?case
  proof (cases "c = CHR 0x0A")
    case True
    obtain l ls where "split_nl cs = l # ls"
      using split_nl_not_Nil [of cs] by (cases "split_nl cs") auto
    with Cons True show ?thesis by simp
  next
    case False
    obtain l ls where s: "split_nl cs = l # ls"
      using split_nl_not_Nil [of cs] by (cases "split_nl cs") auto
    with Cons False show ?thesis by (cases ls) auto
  qed
qed










subsection \<open>Truncation\<close>




section \<open>Workflow status\<close>

subsection \<open>Equality on hashable values\<close>

lemma py_eq_refl: "hashable a = Inr () \<Longrightarrow> py_eq a a"
  by (cases a) auto

lemma py_eq_sym: "py_eq a b \<Longrightarrow> py_eq b a"
  if "hashable a = Inr ()"
  using that by (cases a; cases b) (auto split: if_splits)

lemma py_eq_hashable: "py_eq a b \<Longrightarrow> hashable a = Inr () \<Longrightarrow> hashable b = Inr ()"
  by (cases a; cases b) auto

lemma py_eq_trans: "py_eq a b \<Longrightarrow> py_eq b c \<Longrightarrow> hashable a = Inr () \<Longrightarrow> py_eq a c"
  by (cases a; cases b; cases c) (auto split: if_splits)

lemma py_eq_JStr [simp]: "py_eq v (JStr s) \<longleftrightarrow> v = JStr s"
  by (cases v) auto

lemma py_lt_None [simp]: "py_lt JNull v = Inl (not_supported JNull v)"
  by (cases v) auto

subsection \<open>Filtering\<close>

lemma filter_exn_append:
  "filter_exn p (xs @ ys) =
     bind_exn (filter_exn p xs) (\<lambda>xs'. bind_exn (filter_exn p ys) (\<lambda>ys'. Inr (xs' @ ys')))"
proof (induction xs)
  case Nil
  show ?case by (cases "filter_exn p ys") simp_all
next
  case (Cons x xs)
  show ?case
    by (cases "p x"; cases "filter_exn p xs"; cases "filter_exn p ys") (simp_all add: Cons)
qed

lemma filter_exn_Inr:
  "filter_exn p xs = Inr ys \<Longrightarrow> ys = filter (\<lambda>x. p x = Inr True) xs"
proof (induction xs arbitrary: ys)
  case Nil
  then show ?case by simp
next
  case (Cons x xs)
  then show ?case
    by (cases "p x"; cases "filter_exn p xs") (auto split: if_splits)
qed

lemma filter_exn_none:
  "\<forall>x \<in> set xs. p x = Inr False \<Longrightarrow> filter_exn p xs = Inr []"
  by (induction xs) simp_all

subsection \<open>The dictionary of latest entries\<close>

lemma lookup_key_None: "lookup_key k l = None \<longleftrightarrow> (\<forall>k' \<in> set (map fst l). \<not> py_eq k' k)"
  by (induction l) (auto split: if_splits)

lemma assign_key_absent: "lookup_key k l = None \<Longrightarrow> assign_key k v l = l @ [(k, v)]"
  by (induction l) (auto split: if_splits)

lemma assign_key_present: "lookup_key k l \<noteq> None \<Longrightarrow> map fst (assign_key k v l) = map fst l"
  by (induction l) auto

lemma assign_key_values: "v' \<in> set (map snd (assign_key k v l)) \<Longrightarrow> v' = v \<or> v' \<in> set (map snd l)"
  by (induction l) (force split: if_splits)+

lemma assign_key_pairs:
  "(k', v') \<in> set (assign_key k v l) \<Longrightarrow> (k', v') \<in> set l \<or> (v' = v \<and> (k' = k \<or> py_eq k' k))"
  by (induction l) (auto split: if_splits)

lemma lookup_assign_key:
  assumes "\<forall>k' \<in> set (map fst l). hashable k' = Inr ()" "hashable k = Inr ()" "hashable a = Inr ()"
  shows "lookup_key a (assign_key k v l) = (if py_eq k a then Some v else lookup_key a l)"
  using assms
proof (induction l)
  case Nil
  then show ?case by simp
next
  case (Cons p l)
  obtain k' v' where p: "p = (k', v')" by (cases p)
  have hk': "hashable k' = Inr ()" using Cons.prems p by simp
  show ?case
  proof (cases "py_eq k' k")
    case True
    then have "py_eq k' a \<longleftrightarrow> py_eq k a"
      using py_eq_trans [of k' k a] py_eq_trans [of k k' a] py_eq_sym [of k' k] hk' Cons.prems(2)
      by blast
    with True p show ?thesis by simp
  next
    case False
    then have "py_eq k' a \<Longrightarrow> \<not> py_eq k a"
      using py_eq_trans [of k' a k] py_eq_sym [of k a] hk' Cons.prems(2) by blast
    with False p Cons show ?thesis by auto
  qed
qed

lemma lookup_key_cong:
  assumes "py_eq a b" "hashable a = Inr ()" "\<forall>k' \<in> set (map fst l). hashable k' = Inr ()"
  shows "lookup_key a l = lookup_key b l"
  using assms(3)
proof (induction l)
  case Nil
  show ?case by simp
next
  case (Cons p l)
  obtain k' v' where p: "p = (k', v')" by (cases p)
  have hk': "hashable k' = Inr ()" using Cons.prems p by simp
  have "py_eq k' a \<longleftrightarrow> py_eq k' b"
    using py_eq_trans [of k' a b] py_eq_trans [of k' b a] py_eq_sym [of a b] assms(1,2) hk'
    by blast
  with Cons p show ?case by simp
qed

subsection \<open>One pass of the loop\<close>

lemma dict_get_obj: "dict_get (JObj kv) k JNull = Inr (event_field kv k)"
  by (simp add: event_field_def)

lemma recorded_entry_updated_at:
  "dict_get (recorded_entry kv) ''updated_at'' d = Inr (event_field kv ''updated_at'')"
  by (simp add: recorded_entry_def)


lemma status_step_obj:
  "status_step l (JObj kv) =
     bind_exn (hashable (event_name kv)) (\<lambda>_.
     case lookup_key (event_name kv) l of
       None \<Rightarrow> Inr (assign_key (event_name kv) (recorded_entry kv) l)
     | Some current \<Rightarrow>
         if py_truthy (event_field kv ''updated_at'')
         then bind_exn (dict_get current ''updated_at'' (JStr []))
                (\<lambda>previous. bind_exn (py_lt previous (event_field kv ''updated_at''))
                (\<lambda>replace. Inr (if replace then assign_key (event_name kv) (recorded_entry kv) l
                                 else l)))
         else Inr l)"
proof (cases "hashable (event_name kv)")
  case (Inl e)
  then show ?thesis
    by (simp add: status_step_def event_name_def)
next
  case (Inr u)
  show ?thesis
  proof (cases "lookup_key (event_name kv) l")
    case None
    with Inr show ?thesis
      by (simp add: status_step_def event_name_def event_field_def recorded_entry_def
          status_entry_def)
  next
    case (Some current)
    show ?thesis
    proof (cases "py_truthy (event_field kv ''updated_at'')")
      case False
      with Inr Some show ?thesis
        by (simp add: status_step_def event_name_def event_field_def)
    next
      case True
      show ?thesis
      proof (cases "dict_get current ''updated_at'' (JStr [])")
        case (Inl e)
        with Inr Some True show ?thesis
          by (simp add: status_step_def event_name_def event_field_def)
      next
        case prev: (Inr previous)
        show ?thesis
        proof (cases "py_lt previous (event_field kv ''updated_at'')")
          case (Inl e)
          with Inr Some True prev show ?thesis
            by (simp add: status_step_def event_name_def event_field_def)
        next
          case lt: (Inr replace)
          with Inr Some True prev show ?thesis
            by (simp add: status_step_def event_name_def event_field_def recorded_entry_def
                status_entry_def)
        qed
      qed
    qed
  qed
qed

lemma status_step_not_obj: "(\<forall>kv. e \<noteq> JObj kv) \<Longrightarrow> \<exists>x. status_step l e = Inl x"
  by (cases e) (simp_all add: status_step_def)

lemma status_loop_append:
  "status_loop l (xs @ ys) = bind_exn (status_loop l xs) (\<lambda>l'. status_loop l' ys)"
proof (induction xs arbitrary: l)
  case Nil
  show ?case by simp
next
  case (Cons x xs)
  show ?case
    by (cases "status_step l x") (simp_all add: Cons)
qed

subsection \<open>Latest wins\<close>

lemma is_workflow_run_obj:
  "is_workflow_run (JObj kv) = Inr (map_of kv ''event'' = Some (JStr ''workflow_run''))"
  by (auto simp: is_workflow_run_def split: option.splits)

lemma has_workflow_name_obj:
  "has_workflow_name n (JObj kv) = Inr (map_of kv ''workflow_name'' = Some (JStr n))"
  by (auto simp: has_workflow_name_def split: option.splits)

lemma filter_two:
  assumes "p a = Inr True" "p b = Inr True"
    and "\<forall>x \<in> set xs \<union> set ys \<union> set zs. p x = Inr False"
  shows "filter_exn p (xs @ [a] @ ys @ [b] @ zs) = Inr [a, b]"
  using assms by (simp add: filter_exn_append filter_exn_none)

lemma status_loop_two:
  assumes n1: "map_of kv1 ''workflow_name'' = Some (JStr n)"
    and n2: "map_of kv2 ''workflow_name'' = Some (JStr n)"
    and u1: "map_of kv1 ''updated_at'' = Some (JStr t1)"
    and u2: "map_of kv2 ''updated_at'' = Some (JStr t2)"
  shows "status_loop [] [JObj kv1, JObj kv2] =
           Inr [(JStr n, if t2 \<noteq> [] \<and> t1 < t2 then recorded_entry kv2 else recorded_entry kv1)]"
  using assms
  by (simp add: status_step_obj event_name_def event_field_def recorded_entry_updated_at)

lemma workflow_status_two:
  assumes e1: "map_of kv1 ''event'' = Some (JStr ''workflow_run'')"
    and e2: "map_of kv2 ''event'' = Some (JStr ''workflow_run'')"
    and n1: "map_of kv1 ''workflow_name'' = Some (JStr n)"
    and n2: "map_of kv2 ''workflow_name'' = Some (JStr n)"
    and u1: "map_of kv1 ''updated_at'' = Some (JStr t1)"
    and u2: "map_of kv2 ''updated_at'' = Some (JStr t2)"
    and others: "\<forall>x \<in> set xs \<union> set ys \<union> set zs. is_workflow_run x = Inr False"
    and wf: "passes_filter workflow_name kv1"
  shows "get_workflow_status (Present (Inr (JList (xs @ [JObj kv1] @ ys @ [JObj kv2] @ zs))))
           workflow_name
         = Inr (JList [if t2 \<noteq> [] \<and> t1 < t2 then recorded_entry kv2 else recorded_entry kv1])"
proof -
  have "filter_exn is_workflow_run (xs @ [JObj kv1] @ ys @ [JObj kv2] @ zs)
              = Inr [JObj kv1, JObj kv2]"
    using others by (intro filter_two) (simp_all add: is_workflow_run_obj e1 e2)
  then have f1: "filter_exn is_workflow_run (xs @ JObj kv1 # ys @ JObj kv2 # zs)
              = Inr [JObj kv1, JObj kv2]"
    by simp
  have f2: "(case workflow_name of
                 None \<Rightarrow> Inr [JObj kv1, JObj kv2]
               | Some n \<Rightarrow>
                   if n \<noteq> [] then filter_exn (has_workflow_name n) [JObj kv1, JObj kv2]
                   else Inr [JObj kv1, JObj kv2]) = Inr [JObj kv1, JObj kv2]"
    using wf n1 n2 by (auto simp: passes_filter_def has_workflow_name_obj split: option.splits)
  show ?thesis
    unfolding get_workflow_status_def workflow_status_def
    using status_loop_two [OF n1 n2 u1 u2]
    by (simp add: f1 f2 del: filter_exn.simps status_loop.simps)
qed

text \<open>
  Latest wins, where every candidate has a string timestamp. A log of events that holds
  exactly two \<open>workflow_run\<close> events, both named \<open>n\<close>, with string timestamps
  \<open>t1 < t2\<close> (compared as strings), and otherwise events that are no workflow runs: in
  either order of the two, and for no filter or the filter \<open>n\<close>, \<open>get_workflow_status\<close>
  returns the single entry recorded from the event with \<open>t2\<close>. One pass of the loop over
  an event whose name already has a candidate with a string timestamp \<open>t\<close> replaces the
  candidate exactly when the event has a string \<open>updated_at\<close> that is greater than \<open>t\<close>
  as a string, and keeps it when the event has no \<open>updated_at\<close>; an event with a new name
  is appended.
\<close>

lemma latest_wins:
  "(map_of kv1 ''event'' = Some (JStr ''workflow_run'')
      \<and> map_of kv2 ''event'' = Some (JStr ''workflow_run'')
      \<and> map_of kv1 ''workflow_name'' = Some (JStr n)
      \<and> map_of kv2 ''workflow_name'' = Some (JStr n)
      \<and> map_of kv1 ''updated_at'' = Some (JStr t1)
      \<and> map_of kv2 ''updated_at'' = Some (JStr t2)
      \<and> t1 < t2
      \<and> (\<forall>x \<in> set xs \<union> set ys \<union> set zs. is_workflow_run x = Inr False)
      \<and> passes_filter workflow_name kv1
    \<longrightarrow> get_workflow_status (Present (Inr (JList (xs @ [JObj kv1] @ ys @ [JObj kv2] @ zs))))
            workflow_name
          = Inr (JList [recorded_entry kv2])
        \<and> get_workflow_status (Present (Inr (JList (xs @ [JObj kv2] @ ys @ [JObj kv1] @ zs))))
            workflow_name
          = Inr (JList [recorded_entry kv2]))
   \<and> (hashable (event_name kv) = Inr ()
      \<and> lookup_key (event_name kv) latest_status = Some current
      \<and> dict_get current ''updated_at'' (JStr []) = Inr (JStr t)
    \<longrightarrow> (map_of kv ''updated_at'' = Some (JStr u)
          \<longrightarrow> status_step latest_status (JObj kv)
              = Inr (if t < u then assign_key (event_name kv) (recorded_entry kv) latest_status
                     else latest_status))
        \<and> (map_of kv ''updated_at'' = None
          \<longrightarrow> status_step latest_status (JObj kv) = Inr latest_status))
   \<and> (hashable (event_name kv) = Inr ()
      \<and> lookup_key (event_name kv) latest_status = None
    \<longrightarrow> status_step latest_status (JObj kv)
          = Inr (latest_status @ [(event_name kv, recorded_entry kv)]))"
proof (intro conjI impI)
  assume h: "map_of kv1 ''event'' = Some (JStr ''workflow_run'')
      \<and> map_of kv2 ''event'' = Some (JStr ''workflow_run'')
      \<and> map_of kv1 ''workflow_name'' = Some (JStr n)
      \<and> map_of kv2 ''workflow_name'' = Some (JStr n)
      \<and> map_of kv1 ''updated_at'' = Some (JStr t1)
      \<and> map_of kv2 ''updated_at'' = Some (JStr t2)
      \<and> t1 < t2
      \<and> (\<forall>x \<in> set xs \<union> set ys \<union> set zs. is_workflow_run x = Inr False)
      \<and> passes_filter workflow_name kv1"
  then have t2: "t2 \<noteq> []" and not_less: "\<not> t2 < t1"
    by auto
  have p2: "passes_filter workflow_name kv2"
    using h by (auto simp: passes_filter_def split: option.splits)
  show "get_workflow_status (Present (Inr (JList (xs @ [JObj kv1] @ ys @ [JObj kv2] @ zs))))
            workflow_name
          = Inr (JList [recorded_entry kv2])"
    using h t2 workflow_status_two [of kv1 kv2 n t1 t2 xs ys zs workflow_name] by simp
  show "get_workflow_status (Present (Inr (JList (xs @ [JObj kv2] @ ys @ [JObj kv1] @ zs))))
            workflow_name
          = Inr (JList [recorded_entry kv2])"
    using h p2 not_less workflow_status_two [of kv2 kv1 n t2 t1 xs ys zs workflow_name] by simp
next
  assume h: "hashable (event_name kv) = Inr ()
      \<and> lookup_key (event_name kv) latest_status = Some current
      \<and> dict_get current ''updated_at'' (JStr []) = Inr (JStr t)"
  {
    assume "map_of kv ''updated_at'' = Some (JStr u)"
    then show "status_step latest_status (JObj kv)
              = Inr (if t < u then assign_key (event_name kv) (recorded_entry kv) latest_status
                     else latest_status)"
      using h by (auto simp: status_step_obj event_field_def)
  }
  {
    assume "map_of kv ''updated_at'' = None"
    then show "status_step latest_status (JObj kv) = Inr latest_status"
      using h by (simp add: status_step_obj event_field_def)
  }
next
  assume "hashable (event_name kv) = Inr ()
      \<and> lookup_key (event_name kv) latest_status = None"
  then show "status_step latest_status (JObj kv)
          = Inr (latest_status @ [(event_name kv, recorded_entry kv)])"
    by (simp add: status_step_obj assign_key_absent)
qed

lemma latest_wins_instances:
  "get_workflow_status
     (Present (Inr (JList
        [JObj [(''event'', JStr ''push'')],
         JObj [(''event'', JStr ''workflow_run''), (''workflow_name'', JStr ''CI''),
               (''run_id'', JInt 1), (''updated_at'', JStr ''2024-01-01T00:00:00Z'')],
         JObj [(''event'', JStr ''workflow_run''), (''workflow_name'', JStr ''CI''),
               (''run_id'', JInt 2), (''updated_at'', JStr ''2024-01-02T00:00:00Z'')]]))) None
   = Inr (JList [JObj [(''workflow_name'', JStr ''CI''), (''run_id'', JInt 2), (''status'', JNull),
                       (''conclusion'', JNull), (''updated_at'', JStr ''2024-01-02T00:00:00Z'')]])
   \<and> get_workflow_status
     (Present (Inr (JList
        [JObj [(''event'', JStr ''push'')],
         JObj [(''event'', JStr ''workflow_run''), (''workflow_name'', JStr ''CI''),
               (''run_id'', JInt 2), (''updated_at'', JStr ''2024-01-02T00:00:00Z'')],
         JObj [(''event'', JStr ''workflow_run''), (''workflow_name'', JStr ''CI''),
               (''run_id'', JInt 1), (''updated_at'', JStr ''2024-01-01T00:00:00Z'')]]))) None
   = Inr (JList [JObj [(''workflow_name'', JStr ''CI''), (''run_id'', JInt 2), (''status'', JNull),
                       (''conclusion'', JNull), (''updated_at'', JStr ''2024-01-02T00:00:00Z'')]])
   \<and> status_step
       [(JStr ''CI'', JObj [(''workflow_name'', JStr ''CI''), (''run_id'', JInt 1), (''status'', JNull),
                            (''conclusion'', JNull), (''updated_at'', JStr ''2024-01-01T00:00:00Z'')])]
       (JObj [(''event'', JStr ''workflow_run''), (''workflow_name'', JStr ''CI''),
              (''run_id'', JInt 2), (''updated_at'', JStr ''2024-01-02T00:00:00Z'')])
     = Inr [(JStr ''CI'', JObj [(''workflow_name'', JStr ''CI''), (''run_id'', JInt 2), (''status'', JNull),
                            (''conclusion'', JNull), (''updated_at'', JStr ''2024-01-02T00:00:00Z'')])]
   \<and> status_step
       [(JStr ''CI'', JObj [(''workflow_name'', JStr ''CI''), (''run_id'', JInt 1), (''status'', JNull),
                            (''conclusion'', JNull), (''updated_at'', JStr ''2024-01-01T00:00:00Z'')])]
       (JObj [(''event'', JStr ''workflow_run''), (''workflow_name'', JStr ''CI''), (''run_id'', JInt 3)])
     = Inr [(JStr ''CI'', JObj [(''workflow_name'', JStr ''CI''), (''run_id'', JInt 1), (''status'', JNull),
                            (''conclusion'', JNull), (''updated_at'', JStr ''2024-01-01T00:00:00Z'')])]
   \<and> status_step []
       (JObj [(''event'', JStr ''workflow_run''), (''workflow_name'', JStr ''CI''), (''run_id'', JInt 3)])
     = Inr [(JStr ''CI'', JObj [(''workflow_name'', JStr ''CI''), (''run_id'', JInt 3), (''status'', JNull),
                            (''conclusion'', JNull), (''updated_at'', JNull)])]"
proof -
  let ?e1 = "[(''event'', JStr ''workflow_run''), (''workflow_name'', JStr ''CI''),
               (''run_id'', JInt 1), (''updated_at'', JStr ''2024-01-01T00:00:00Z'')]"
  let ?e2 = "[(''event'', JStr ''workflow_run''), (''workflow_name'', JStr ''CI''),
               (''run_id'', JInt 2), (''updated_at'', JStr ''2024-01-02T00:00:00Z'')]"
  let ?e3 = "[(''event'', JStr ''workflow_run''), (''workflow_name'', JStr ''CI''), (''run_id'', JInt 3)]"
  let ?c1 = "JObj [(''workflow_name'', JStr ''CI''), (''run_id'', JInt 1), (''status'', JNull),
                            (''conclusion'', JNull), (''updated_at'', JStr ''2024-01-01T00:00:00Z'')]"
  have less: "''2024-01-01T00:00:00Z'' < ''2024-01-02T00:00:00Z''"
    by simp
  have push: "is_workflow_run (JObj [(''event'', JStr ''push'')]) = Inr False"
    by (simp add: is_workflow_run_def)
  note two = latest_wins
      [where ?kv1.0 = ?e1 and ?kv2.0 = ?e2 and n = "''CI''"
         and ?t1.0 = "''2024-01-01T00:00:00Z''" and ?t2.0 = "''2024-01-02T00:00:00Z''"
         and xs = "[JObj [(''event'', JStr ''push'')]]" and ys = "[]" and zs = "[]"
         and workflow_name = None, THEN conjunct1]
  note step_present = latest_wins
      [where kv = ?e2 and latest_status = "[(JStr ''CI'', ?c1)]" and current = ?c1
         and t = "''2024-01-01T00:00:00Z''" and u = "''2024-01-02T00:00:00Z''",
       THEN conjunct2, THEN conjunct1]
  note step_absent = latest_wins
      [where kv = ?e3 and latest_status = "[(JStr ''CI'', ?c1)]" and current = ?c1
         and t = "''2024-01-01T00:00:00Z''", THEN conjunct2, THEN conjunct1]
  note step_new = latest_wins
      [where kv = ?e3 and latest_status = "[]", THEN conjunct2, THEN conjunct2]
  show ?thesis
    using two step_present step_absent step_new less push
    by (simp add: passes_filter_def recorded_entry_def event_name_def event_field_def)
qed

text \<open>
  Claim C2. The reduction is to keep the candidate of a name unless a later event has an
  \<open>updated_at\<close> that is present and greater, as a string, than the candidate's. The test
  reads the candidate's timestamp with \<open>.get("updated_at", "")\<close>, so that a candidate
  without one would compare as the empty string and give way to any later timestamp;
  but the candidate is stored with the key \<open>updated_at\<close> bound to \<open>None\<close>, the default
  never applies, and \<open>None < "2024-01-02T00:00:00Z"\<close> raises. On a log of two runs of
  \<open>CI\<close>, the first without \<open>updated_at\<close>, the call returns an error object in place
  of the entry of the second event.
\<close>

theorem candidate_without_timestamp_raises:
  "get_workflow_status
     (Present (Inr (JList
        [JObj [(''event'', JStr ''workflow_run''), (''workflow_name'', JStr ''CI''),
               (''run_id'', JInt 1), (''status'', JStr ''in_progress'')],
         JObj [(''event'', JStr ''workflow_run''), (''workflow_name'', JStr ''CI''),
               (''run_id'', JInt 1), (''status'', JStr ''completed''),
               (''updated_at'', JStr ''2024-01-02T00:00:00Z'')]]))) None
   = Inr (JObj [(''error'',
                 JStr (''Failed to get workflow status: '' @ quote ''<''
                       @ '' not supported between instances of '' @ quote ''NoneType''
                       @ '' and '' @ quote ''str''))])"
  by code_simp

subsection \<open>One entry per name\<close>

lemma bind_exn_Inr: "bind_exn m f = Inr y \<longleftrightarrow> (\<exists>x. m = Inr x \<and> f x = Inr y)"
  by (cases m) simp_all

lemma assign_key_pairs_keys:
  "(k', v') \<in> set (assign_key k v l) \<Longrightarrow>
   (k', v') \<in> set l \<or> (v' = v \<and> (k' = k \<or> (k' \<in> set (map fst l) \<and> py_eq k' k)))"
  by (induction l) (force split: if_splits)+

lemma assign_key_keys:
  "map fst (assign_key k v l) = (if lookup_key k l = None then map fst l @ [k] else map fst l)"
  by (simp add: assign_key_absent assign_key_present)

lemma status_step_result:
  assumes "status_step l e = Inr l'"
  shows "\<exists>kv. e = JObj kv \<and> hashable (event_name kv) = Inr ()
            \<and> (l' = l \<or> l' = assign_key (event_name kv) (recorded_entry kv) l)"
proof -
  obtain kv where e: "e = JObj kv"
    using assms status_step_not_obj [of e l] by auto
  have h: "hashable (event_name kv) = Inr ()"
    using assms unfolding e status_step_obj by (cases "hashable (event_name kv)") simp_all
  have "l' = l \<or> l' = assign_key (event_name kv) (recorded_entry kv) l"
    using assms unfolding e status_step_obj h
    by (auto simp: bind_exn_Inr split: option.splits if_splits)
  with e h show ?thesis by blast
qed

text \<open>
  The invariant of the loop: the keys are hashable and pairwise different under \<open>==\<close>,
  and every value is the entry recorded from an event seen so far whose name equals
  the key.
\<close>

lemma assign_key_invariant:
  assumes keys: "sorted_wrt (\<lambda>a b. \<not> py_eq a b) (map fst l)"
    and vals: "\<forall>(k, v) \<in> set l. hashable k = Inr () \<and>
                 (\<exists>kv. JObj kv \<in> seen \<and> v = recorded_entry kv \<and> py_eq k (event_name kv))"
    and h: "hashable (event_name kv) = Inr ()"
    and seen: "JObj kv \<in> seen"
  shows "sorted_wrt (\<lambda>a b. \<not> py_eq a b) (map fst (assign_key (event_name kv) (recorded_entry kv) l))
       \<and> (\<forall>(k, v) \<in> set (assign_key (event_name kv) (recorded_entry kv) l). hashable k = Inr () \<and>
            (\<exists>kv. JObj kv \<in> seen \<and> v = recorded_entry kv \<and> py_eq k (event_name kv)))"
proof
  show "sorted_wrt (\<lambda>a b. \<not> py_eq a b) (map fst (assign_key (event_name kv) (recorded_entry kv) l))"
    using keys by (auto simp: assign_key_keys sorted_wrt_append lookup_key_None)
next
  show "\<forall>(k, v) \<in> set (assign_key (event_name kv) (recorded_entry kv) l). hashable k = Inr () \<and>
            (\<exists>kv. JObj kv \<in> seen \<and> v = recorded_entry kv \<and> py_eq k (event_name kv))"
  proof (clarify, intro conjI)
    fix k v
    assume m: "(k, v) \<in> set (assign_key (event_name kv) (recorded_entry kv) l)"
    from assign_key_pairs_keys [OF m]
    consider "(k, v) \<in> set l"
      | "v = recorded_entry kv" "k = event_name kv"
      | "v = recorded_entry kv" "k \<in> set (map fst l)" "py_eq k (event_name kv)"
      by blast
    then show "hashable k = Inr ()"
    proof cases
      case 1
      with vals show ?thesis by auto
    next
      case 2
      with h show ?thesis by simp
    next
      case 3
      with vals show ?thesis by auto
    qed
    from assign_key_pairs_keys [OF m]
    consider "(k, v) \<in> set l"
      | "v = recorded_entry kv" "k = event_name kv"
      | "v = recorded_entry kv" "k \<in> set (map fst l)" "py_eq k (event_name kv)"
      by blast
    then show "\<exists>kv. JObj kv \<in> seen \<and> v = recorded_entry kv \<and> py_eq k (event_name kv)"
    proof cases
      case 1
      with vals show ?thesis by auto
    next
      case 2
      with h seen show ?thesis using py_eq_refl by blast
    next
      case 3
      with seen show ?thesis by blast
    qed
  qed
qed

lemma status_loop_invariant:
  assumes "status_loop l es = Inr l'"
    and "sorted_wrt (\<lambda>a b. \<not> py_eq a b) (map fst l)"
    and "\<forall>(k, v) \<in> set l. hashable k = Inr () \<and>
            (\<exists>kv. JObj kv \<in> seen \<and> v = recorded_entry kv \<and> py_eq k (event_name kv))"
  shows "sorted_wrt (\<lambda>a b. \<not> py_eq a b) (map fst l')
       \<and> (\<forall>(k, v) \<in> set l'. hashable k = Inr () \<and>
            (\<exists>kv. JObj kv \<in> seen \<union> set es \<and> v = recorded_entry kv \<and> py_eq k (event_name kv)))"
  using assms
proof (induction es arbitrary: l seen)
  case Nil
  then show ?case by simp
next
  case (Cons e es)
  from Cons.prems(1) obtain l1 where
    step: "status_step l e = Inr l1" and rest: "status_loop l1 es = Inr l'"
    by (auto simp: bind_exn_Inr)
  from status_step_result [OF step] obtain kv where
    e: "e = JObj kv" and h: "hashable (event_name kv) = Inr ()"
    and l1: "l1 = l \<or> l1 = assign_key (event_name kv) (recorded_entry kv) l"
    by blast
  have vals: "\<forall>(k, v) \<in> set l. hashable k = Inr () \<and>
            (\<exists>kv. JObj kv \<in> insert e seen \<and> v = recorded_entry kv \<and> py_eq k (event_name kv))"
    using Cons.prems(3) by fastforce
  have inv1: "sorted_wrt (\<lambda>a b. \<not> py_eq a b) (map fst l1)
       \<and> (\<forall>(k, v) \<in> set l1. hashable k = Inr () \<and>
            (\<exists>kv. JObj kv \<in> insert e seen \<and> v = recorded_entry kv \<and> py_eq k (event_name kv)))"
    using l1
  proof
    assume "l1 = l"
    with Cons.prems(2) vals show ?thesis by simp
  next
    assume "l1 = assign_key (event_name kv) (recorded_entry kv) l"
    then show ?thesis
      using assign_key_invariant [OF Cons.prems(2) vals h] e by simp
  qed
  have "sorted_wrt (\<lambda>a b. \<not> py_eq a b) (map fst l')
       \<and> (\<forall>(k, v) \<in> set l'. hashable k = Inr () \<and>
            (\<exists>kv. JObj kv \<in> insert e seen \<union> set es \<and> v = recorded_entry kv \<and> py_eq k (event_name kv)))"
    using Cons.IH [OF rest] inv1 by blast
  then show ?case by simp
qed





subsection \<open>A candidate without a timestamp\<close>

lemma status_step_raises:
  assumes "lookup_key (event_name kv) l = Some cur"
    and "dict_get cur ''updated_at'' (JStr []) = Inr JNull"
    and "py_truthy (event_field kv ''updated_at'')"
  shows "\<exists>x. status_step l (JObj kv) = Inl x"
  using assms by (cases "hashable (event_name kv)") (simp_all add: status_step_obj)

lemma status_step_none_against_string:
  assumes "hashable (event_name kv) = Inr ()"
    and "lookup_key (event_name kv) l = Some cur"
    and "dict_get cur ''updated_at'' (JStr []) = Inr JNull"
    and "map_of kv ''updated_at'' = Some (JStr u)" "u \<noteq> []"
  shows "status_step l (JObj kv) =
           Inl (TypeError (quote ''<'' @ '' not supported between instances of ''
                           @ quote ''NoneType'' @ '' and '' @ quote ''str''))"
  using assms by (simp add: status_step_obj event_field_def not_supported_def)

lemma assign_key_hashable:
  "\<forall>k' \<in> set (map fst l). hashable k' = Inr () \<Longrightarrow> hashable k = Inr () \<Longrightarrow>
   \<forall>k' \<in> set (map fst (assign_key k v l)). hashable k' = Inr ()"
  by (auto simp: assign_key_keys)

lemma status_step_keeps_null:
  assumes step: "status_step l e = Inr l'"
    and keys: "\<forall>k \<in> set (map fst l). hashable k = Inr ()"
    and a: "hashable a = Inr ()"
    and cur: "lookup_key a l = Some cur"
    and null: "dict_get cur ''updated_at'' (JStr []) = Inr JNull"
  shows "(\<forall>k \<in> set (map fst l'). hashable k = Inr ())
       \<and> (\<exists>cur'. lookup_key a l' = Some cur' \<and> dict_get cur' ''updated_at'' (JStr []) = Inr JNull)"
proof -
  from status_step_result [OF step] obtain kv where
    e: "e = JObj kv" and h: "hashable (event_name kv) = Inr ()"
    and l': "l' = l \<or> l' = assign_key (event_name kv) (recorded_entry kv) l"
    by blast
  show ?thesis
  proof (cases "py_eq (event_name kv) a")
    case True
    have "lookup_key (event_name kv) l = Some cur"
      using lookup_key_cong [OF True h keys] cur by simp
    then have "\<not> py_truthy (event_field kv ''updated_at'')"
      using status_step_raises [OF _ null, of kv l] step e by auto
    then have "l' = l"
      using step \<open>lookup_key (event_name kv) l = Some cur\<close> h
      unfolding e status_step_obj by simp
    with keys cur null show ?thesis by blast
  next
    case False
    from l' show ?thesis
    proof
      assume "l' = l"
      with keys cur null show ?thesis by blast
    next
      assume eq: "l' = assign_key (event_name kv) (recorded_entry kv) l"
      have "lookup_key a l' = lookup_key a l"
        unfolding eq using lookup_assign_key [OF keys h a] False by simp
      moreover have "\<forall>k \<in> set (map fst l'). hashable k = Inr ()"
        unfolding eq using keys h by (rule assign_key_hashable)
      ultimately show ?thesis
        using cur null by auto
    qed
  qed
qed

lemma status_loop_keeps_null:
  assumes "status_loop l es = Inr l'"
    and "\<forall>k \<in> set (map fst l). hashable k = Inr ()"
    and "hashable a = Inr ()"
    and "lookup_key a l = Some cur"
    and "dict_get cur ''updated_at'' (JStr []) = Inr JNull"
  shows "(\<forall>k \<in> set (map fst l'). hashable k = Inr ())
       \<and> (\<exists>cur'. lookup_key a l' = Some cur' \<and> dict_get cur' ''updated_at'' (JStr []) = Inr JNull)"
  using assms
proof (induction es arbitrary: l cur)
  case Nil
  then show ?case by auto
next
  case (Cons e es)
  from Cons.prems(1) obtain l1 where
    step: "status_step l e = Inr l1" and rest: "status_loop l1 es = Inr l'"
    by (auto simp: bind_exn_Inr)
  from status_step_keeps_null [OF step Cons.prems(2,3,4,5)] obtain cur1 where
    "\<forall>k \<in> set (map fst l1). hashable k = Inr ()"
    "lookup_key a l1 = Some cur1" "dict_get cur1 ''updated_at'' (JStr []) = Inr JNull"
    by blast
  then show ?case
    using Cons.IH [OF rest _ Cons.prems(3)] by blast
qed

lemma status_loop_raises:
  assumes a: "event_field kv_a ''updated_at'' = JNull"
    and b: "map_of kv_b ''updated_at'' = Some (JStr u)" "u \<noteq> []"
    and same: "event_name kv_b = event_name kv_a"
    and first: "\<forall>kv. JObj kv \<in> set pre \<longrightarrow> \<not> py_eq (event_name kv) (event_name kv_a)"
  shows "\<exists>x. status_loop [] (pre @ [JObj kv_a] @ mid @ [JObj kv_b] @ post) = Inl x"
proof (rule ccontr)
  assume "\<not> ?thesis"
  then obtain latest where
    "status_loop [] (pre @ [JObj kv_a] @ mid @ [JObj kv_b] @ post) = Inr latest"
    by (cases "status_loop [] (pre @ [JObj kv_a] @ mid @ [JObj kv_b] @ post)") auto
  then obtain l1 l2 l3 l4 where
    pre: "status_loop [] pre = Inr l1"
    and sa: "status_step l1 (JObj kv_a) = Inr l2"
    and mid: "status_loop l2 mid = Inr l3"
    and sb: "status_step l3 (JObj kv_b) = Inr l4"
    by (auto simp: status_loop_append bind_exn_Inr)
  have inv1: "sorted_wrt (\<lambda>a b. \<not> py_eq a b) (map fst l1)
       \<and> (\<forall>(k, v) \<in> set l1. hashable k = Inr () \<and>
            (\<exists>kv. JObj kv \<in> {} \<union> set pre \<and> v = recorded_entry kv \<and> py_eq k (event_name kv)))"
    using pre by (rule status_loop_invariant) simp_all
  then have keys1: "\<forall>k \<in> set (map fst l1). hashable k = Inr ()"
    by auto
  from status_step_result [OF sa] have ha: "hashable (event_name kv_a) = Inr ()"
    by auto
  have "\<not> py_eq k (event_name kv_a)" if "k \<in> set (map fst l1)" for k
  proof
    assume eq: "py_eq k (event_name kv_a)"
    from that inv1 obtain kv where hk: "hashable k = Inr ()"
      and kv: "JObj kv \<in> set pre" and kn: "py_eq k (event_name kv)"
      by auto
    have "py_eq (event_name kv) k"
      using kn hk by (simp add: py_eq_sym)
    moreover have "hashable (event_name kv) = Inr ()"
      using kn hk by (rule py_eq_hashable)
    ultimately have "py_eq (event_name kv) (event_name kv_a)"
      using eq py_eq_trans by blast
    with first kv show False by blast
  qed
  then have none: "lookup_key (event_name kv_a) l1 = None"
    by (simp add: lookup_key_None)
  have l2: "l2 = assign_key (event_name kv_a) (recorded_entry kv_a) l1"
    using sa ha none by (simp add: status_step_obj)
  have keys2: "\<forall>k \<in> set (map fst l2). hashable k = Inr ()"
    unfolding l2 using keys1 ha by (rule assign_key_hashable)
  have cur2: "lookup_key (event_name kv_a) l2 = Some (recorded_entry kv_a)"
    unfolding l2 using lookup_assign_key [OF keys1 ha ha] py_eq_refl [OF ha] by simp
  have null2: "dict_get (recorded_entry kv_a) ''updated_at'' (JStr []) = Inr JNull"
    using a by (simp add: recorded_entry_updated_at)
  from status_loop_keeps_null [OF mid keys2 ha cur2 null2] obtain cur3 where
    "lookup_key (event_name kv_a) l3 = Some cur3"
    "dict_get cur3 ''updated_at'' (JStr []) = Inr JNull"
    by blast
  then have "\<exists>x. status_step l3 (JObj kv_b) = Inl x"
    using b same by (intro status_step_raises [of kv_b l3 cur3]) (simp_all add: event_field_def)
  with sb show False by simp
qed

lemma selected_events:
  assumes f1: "filter_exn is_workflow_run all_events = Inr w1"
    and f2: "(case workflow_name of
                 None \<Rightarrow> Inr w1
               | Some n \<Rightarrow> if n \<noteq> [] then filter_exn (has_workflow_name n) w1 else Inr w1) = Inr w2"
  shows "w2 = filter (\<lambda>x. is_workflow_run x = Inr True
                       \<and> (case workflow_name of None \<Rightarrow> True
                           | Some n \<Rightarrow> n = [] \<or> has_workflow_name n x = Inr True)) all_events"
proof -
  have w1: "w1 = filter (\<lambda>x. is_workflow_run x = Inr True) all_events"
    using f1 by (rule filter_exn_Inr)
  show ?thesis
  proof (cases workflow_name)
    case None
    with f2 w1 show ?thesis by simp
  next
    case (Some n)
    show ?thesis
    proof (cases "n = []")
      case True
      with f2 Some w1 show ?thesis by simp
    next
      case False
      with f2 Some have "w2 = filter (\<lambda>x. has_workflow_name n x = Inr True) w1"
        by (simp add: filter_exn_Inr)
      with Some False w1 show ?thesis
        by (simp add: conj_commute)
    qed
  qed
qed

text \<open>
  Claim C10, as stated: a \<open>workflow_run\<close> event without \<open>updated_at\<close> that is followed by
  one of the same name with a string \<open>updated_at\<close> makes \<open>get_workflow_status\<close> return an
  error object. It returns a status list when an earlier event of that name already
  holds the candidate (the event without \<open>updated_at\<close> is skipped), and when the later
  \<open>updated_at\<close> is the empty string (the guard \<open>updated_at and ...\<close> skips the comparison).
\<close>

theorem missing_timestamp_error_counterexample:
  "get_workflow_status
     (Present (Inr (JList
        [JObj [(''event'', JStr ''workflow_run''), (''workflow_name'', JStr ''CI''),
               (''run_id'', JInt 1), (''updated_at'', JStr ''2024-01-01T00:00:00Z'')],
         JObj [(''event'', JStr ''workflow_run''), (''workflow_name'', JStr ''CI''),
               (''run_id'', JInt 2)],
         JObj [(''event'', JStr ''workflow_run''), (''workflow_name'', JStr ''CI''),
               (''run_id'', JInt 3), (''updated_at'', JStr ''2024-01-02T00:00:00Z'')]]))) None
   = Inr (JList
       [JObj [(''workflow_name'', JStr ''CI''), (''run_id'', JInt 3), (''status'', JNull),
              (''conclusion'', JNull), (''updated_at'', JStr ''2024-01-02T00:00:00Z'')]])
   \<and> get_workflow_status
     (Present (Inr (JList
        [JObj [(''event'', JStr ''workflow_run''), (''workflow_name'', JStr ''CI''),
               (''run_id'', JInt 1)],
         JObj [(''event'', JStr ''workflow_run''), (''workflow_name'', JStr ''CI''),
               (''run_id'', JInt 2), (''updated_at'', JStr [])]]))) None
   = Inr (JList
       [JObj [(''workflow_name'', JStr ''CI''), (''run_id'', JInt 1), (''status'', JNull),
              (''conclusion'', JNull), (''updated_at'', JNull)]])"
  by code_simp

text \<open>
  Claim C10, amended. If the first \<open>workflow_run\<close> event of a name (among those passing
  the filter) has no \<open>updated_at\<close> value, and a later one of the same name has a non-empty
  string \<open>updated_at\<close>, then \<open>get_workflow_status\<close> returns the error object
  \<open>{"error": "Failed to get workflow status: ..."}\<close>: the candidate keeps \<open>None\<close> as its
  \<open>updated_at\<close> until the comparison \<open>None < str\<close> raises, unless something raised before.
\<close>

theorem missing_timestamp_error:
  assumes ea: "map_of kv_a ''event'' = Some (JStr ''workflow_run'')"
    and pa: "passes_filter workflow_name kv_a"
    and ua: "event_field kv_a ''updated_at'' = JNull"
    and eb: "map_of kv_b ''event'' = Some (JStr ''workflow_run'')"
    and pb: "passes_filter workflow_name kv_b"
    and ub: "map_of kv_b ''updated_at'' = Some (JStr u)" "u \<noteq> []"
    and same: "event_name kv_b = event_name kv_a"
    and first: "\<forall>kv. JObj kv \<in> set pre \<and> map_of kv ''event'' = Some (JStr ''workflow_run'')
                  \<and> passes_filter workflow_name kv
                \<longrightarrow> \<not> py_eq (event_name kv) (event_name kv_a)"
  shows "\<exists>msg. get_workflow_status
                 (Present (Inr (JList (pre @ [JObj kv_a] @ mid @ [JObj kv_b] @ post))))
                 workflow_name
               = Inr (JObj [(''error'', JStr (''Failed to get workflow status: '' @ msg))])"
proof -
  let ?all = "pre @ [JObj kv_a] @ mid @ [JObj kv_b] @ post"
  let ?Q = "\<lambda>x. is_workflow_run x = Inr True
                       \<and> (case workflow_name of None \<Rightarrow> True
                           | Some n \<Rightarrow> n = [] \<or> has_workflow_name n x = Inr True)"
  have Q_obj: "?Q (JObj kv) \<longleftrightarrow>
      map_of kv ''event'' = Some (JStr ''workflow_run'') \<and> passes_filter workflow_name kv" for kv
    by (auto simp: is_workflow_run_obj has_workflow_name_obj passes_filter_def
        split: option.splits)
  have "\<exists>x. workflow_status (JList ?all) workflow_name = Inl x"
  proof (rule ccontr)
    assume "\<not> ?thesis"
    then obtain v where "workflow_status (JList ?all) workflow_name = Inr v"
      by (cases "workflow_status (JList ?all) workflow_name") auto
    then obtain w1 w2 latest where
      f1: "filter_exn is_workflow_run ?all = Inr w1"
      and f2: "(case workflow_name of
                 None \<Rightarrow> Inr w1
               | Some n \<Rightarrow> if n \<noteq> [] then filter_exn (has_workflow_name n) w1 else Inr w1) = Inr w2"
      and loop: "status_loop [] w2 = Inr latest"
      unfolding workflow_status_def by (auto simp: bind_exn_Inr)
    have "w2 = filter ?Q ?all"
      using f1 f2 by (rule selected_events)
    also have "\<dots> = filter ?Q pre @ [JObj kv_a] @ filter ?Q mid @ [JObj kv_b] @ filter ?Q post"
      using Q_obj [of kv_a] Q_obj [of kv_b] ea pa eb pb by simp
    finally have w2: "w2 = filter ?Q pre @ [JObj kv_a] @ filter ?Q mid @ [JObj kv_b] @ filter ?Q post" .
    have "\<forall>kv. JObj kv \<in> set (filter ?Q pre) \<longrightarrow> \<not> py_eq (event_name kv) (event_name kv_a)"
      using first Q_obj by auto
    from status_loop_raises [OF ua ub same this]
    have "\<exists>x. status_loop [] w2 = Inl x"
      unfolding w2 .
    with loop show False by simp
  qed
  then obtain x where "workflow_status (JList ?all) workflow_name = Inl x"
    by blast
  then show ?thesis
    by (simp add: get_workflow_status_def)
qed

theorem missing_timestamp_error_witness:
  "\<exists>msg. get_workflow_status
     (Present (Inr (JList
        [JObj [(''event'', JStr ''push'')],
         JObj [(''event'', JStr ''workflow_run''), (''workflow_name'', JStr ''CI''),
               (''run_id'', JInt 1)],
         JObj [(''event'', JStr ''workflow_run''), (''workflow_name'', JStr ''Deploy''),
               (''run_id'', JInt 2), (''updated_at'', JStr ''2024-01-01T00:00:00Z'')],
         JObj [(''event'', JStr ''workflow_run''), (''workflow_name'', JStr ''CI''),
               (''run_id'', JInt 3), (''updated_at'', JStr ''2024-01-02T00:00:00Z'')]]))) None
   = Inr (JObj [(''error'', JStr (''Failed to get workflow status: '' @ msg))])"
  using missing_timestamp_error
    [where kv_a = "[(''event'', JStr ''workflow_run''), (''workflow_name'', JStr ''CI''),
               (''run_id'', JInt 1)]"
       and kv_b = "[(''event'', JStr ''workflow_run''), (''workflow_name'', JStr ''CI''),
               (''run_id'', JInt 3), (''updated_at'', JStr ''2024-01-02T00:00:00Z'')]"
       and u = "''2024-01-02T00:00:00Z''" and workflow_name = None
       and pre = "[JObj [(''event'', JStr ''push'')]]"
       and mid = "[JObj [(''event'', JStr ''workflow_run''), (''workflow_name'', JStr ''Deploy''),
               (''run_id'', JInt 2), (''updated_at'', JStr ''2024-01-01T00:00:00Z'')]]"
       and post = "[]"]
  by (simp add: passes_filter_def event_field_def event_name_def)

end
